theory Spec2Isabelle
  imports Complex_Main "HOL-Library.Word"
begin

section \<open>Data type tags (DataType.cc)\<close>

text \<open>
  The tags of the table system. The first 27 are the enumerators that the switch of
  \<open>operator<<(ostream&, DataType)\<close> in DataType.cc runs through, in its order;
  \<open>TpInt64\<close> and \<open>TpArrayInt64\<close> are the two later tags that
  Record2Interface.cc switches on as well.
\<close>

datatype DataType =
    TpBool | TpChar | TpUChar | TpShort | TpUShort | TpInt | TpUInt
  | TpFloat | TpDouble | TpComplex | TpDComplex | TpString
  | TpTable
  | TpArrayBool | TpArrayChar | TpArrayUChar | TpArrayShort | TpArrayUShort
  | TpArrayInt | TpArrayUInt | TpArrayFloat | TpArrayDouble | TpArrayComplex
  | TpArrayDComplex | TpArrayString
  | TpRecord | TpOther
  | TpInt64 | TpArrayInt64

text \<open>
  Modelled from the spec: the enumeration itself is declared in DataType.h, which is not
  among the sources. The enumerators are numbered from 0 in the order in which the switch
  of \<open>operator<<\<close> lists them, which is also the order of the type tag enumeration of
  the spec (the scalars, "table", the array of each, "record", "other"); the two 64-bit
  integer tags come after \<open>TpOther\<close>.
\<close>

fun enumValue :: "DataType \<Rightarrow> int" where
  "enumValue TpBool = 0"
| "enumValue TpChar = 1"
| "enumValue TpUChar = 2"
| "enumValue TpShort = 3"
| "enumValue TpUShort = 4"
| "enumValue TpInt = 5"
| "enumValue TpUInt = 6"
| "enumValue TpFloat = 7"
| "enumValue TpDouble = 8"
| "enumValue TpComplex = 9"
| "enumValue TpDComplex = 10"
| "enumValue TpString = 11"
| "enumValue TpTable = 12"
| "enumValue TpArrayBool = 13"
| "enumValue TpArrayChar = 14"
| "enumValue TpArrayUChar = 15"
| "enumValue TpArrayShort = 16"
| "enumValue TpArrayUShort = 17"
| "enumValue TpArrayInt = 18"
| "enumValue TpArrayUInt = 19"
| "enumValue TpArrayFloat = 20"
| "enumValue TpArrayDouble = 21"
| "enumValue TpArrayComplex = 22"
| "enumValue TpArrayDComplex = 23"
| "enumValue TpArrayString = 24"
| "enumValue TpRecord = 25"
| "enumValue TpOther = 26"
| "enumValue TpInt64 = 27"
| "enumValue TpArrayInt64 = 28"

text \<open>\<open>Bool isScalar(DataType type) { return ToBool(type <= TpString); }\<close>\<close>

definition isScalar :: "DataType \<Rightarrow> bool" where
  "isScalar type = (enumValue type \<le> enumValue TpString)"

text \<open>\<open>Bool isArray(DataType type)
  { return ToBool(type >= TpArrayBool && type <= TpArrayString); }\<close>\<close>

definition isArray :: "DataType \<Rightarrow> bool" where
  "isArray type = (enumValue type \<ge> enumValue TpArrayBool \<and> enumValue type \<le> enumValue TpArrayString)"

section \<open>Exceptions (Error2.cc)\<close>

text \<open>
  The exception classes of Error2.cc. \<open>AipsError\<close> derives from \<open>ExcpError\<close>, and
  \<open>AllocError\<close>, \<open>IndexError\<close>, \<open>DuplError\<close> and \<open>AbortError\<close> derive from
  \<open>AipsError\<close>, as the initialiser lists of their constructors show.
\<close>

datatype ErrorClass =
  ExcpErrorClass | AipsErrorClass | AllocErrorClass | IndexErrorClass | DuplErrorClass
  | AbortErrorClass

text \<open>
  An exception object: its dynamic class and the members that the constructors of
  Error2.cc set (\<open>message\<close>, \<open>_equal\<close>, \<open>Size\<close>).
\<close>

record ExcpError =
  dynClass :: ErrorClass
  message :: string
  equal' :: bool
  Size :: nat

text \<open>
  \<open>PCAST(tmp, C, excp)\<close> casts a pointer down to class \<open>C\<close>: \<open>tmp\<close> is non-null
  exactly when the object is of class \<open>C\<close> or of a class derived from it.
\<close>

fun isA :: "ErrorClass \<Rightarrow> ErrorClass \<Rightarrow> bool" where
  "isA c ExcpErrorClass = True"
| "isA c AipsErrorClass = (c \<noteq> ExcpErrorClass)"
| "isA c d = (c = d)"

definition PCAST :: "ErrorClass \<Rightarrow> ExcpError \<Rightarrow> ExcpError option" where
  "PCAST c excp = (if isA (dynClass excp) c then Some excp else None)"

text \<open>
  The process as far as Error2.cc touches it: the text written to \<open>cerr\<close>. A constructor
  call either returns the constructed object or ends the process through \<open>exit\<close>.
\<close>

record Process =
  cerr :: string

datatype 'a Completion = Returned 'a | Exited int

definition endl :: string where
  "endl = [CHR 0x0A]"

definition put_cerr :: "string \<Rightarrow> Process \<Rightarrow> Process" where
  "put_cerr str p = p\<lparr>cerr := cerr p @ str\<rparr>"

text \<open>
  Every constructor takes \<open>this\<close> as its base class constructor (not in Error2.cc) has
  left it, and then runs its own initialisers and body.

  \<open>AipsError::AipsError(const Char *str) : message(str) {}\<close> and
  \<open>AipsError::AipsError(const String &str) : message(str) {}\<close>
\<close>

definition AipsError_Char :: "ExcpError \<Rightarrow> string \<Rightarrow> Process \<Rightarrow> ExcpError Completion \<times> Process" where
  "AipsError_Char this str p = (Returned (this\<lparr>dynClass := AipsErrorClass, message := str\<rparr>), p)"

definition AipsError_String :: "ExcpError \<Rightarrow> string \<Rightarrow> Process \<Rightarrow> ExcpError Completion \<times> Process" where
  "AipsError_String this str p = (Returned (this\<lparr>dynClass := AipsErrorClass, message := str\<rparr>), p)"

text \<open>\<open>AipsError::AipsError(ExcpError *excp) : ExcpError(excp)\<close>\<close>

definition AipsError_Excp :: "ExcpError \<Rightarrow> ExcpError \<Rightarrow> Process \<Rightarrow> ExcpError Completion \<times> Process" where
  "AipsError_Excp this excp p =
     (case PCAST AipsErrorClass excp of
        Some tmp \<Rightarrow> (Returned (this\<lparr>dynClass := AipsErrorClass, equal' := True, message := message tmp\<rparr>), p)
      | None \<Rightarrow> (Returned (this\<lparr>dynClass := AipsErrorClass, equal' := False\<rparr>), p))"

text \<open>\<open>AllocError::AllocError(ExcpError *excp) : AipsError(excp)\<close>\<close>

definition AllocError_Excp :: "ExcpError \<Rightarrow> ExcpError \<Rightarrow> Process \<Rightarrow> ExcpError Completion \<times> Process" where
  "AllocError_Excp this excp p =
     (case AipsError_Excp this excp p of
        (Exited n, p') \<Rightarrow> (Exited n, p')
      | (Returned base, p') \<Rightarrow>
          (case PCAST AllocErrorClass excp of
             Some tmp \<Rightarrow> (Returned (base\<lparr>dynClass := AllocErrorClass, Size := Size tmp, equal' := True\<rparr>), p')
           | None \<Rightarrow> (Returned (base\<lparr>dynClass := AllocErrorClass, equal' := False, Size := 0\<rparr>), p')))"

text \<open>\<open>IndexError::IndexError(ExcpError *excp) : AipsError(excp)\<close>\<close>

definition IndexError_Excp :: "ExcpError \<Rightarrow> ExcpError \<Rightarrow> Process \<Rightarrow> ExcpError Completion \<times> Process" where
  "IndexError_Excp this excp p =
     (case AipsError_Excp this excp p of
        (Exited n, p') \<Rightarrow> (Exited n, p')
      | (Returned base, p') \<Rightarrow>
          (case PCAST IndexErrorClass excp of
             Some tmp \<Rightarrow> (Returned (base\<lparr>dynClass := IndexErrorClass, equal' := True\<rparr>), p')
           | None \<Rightarrow> (Returned (base\<lparr>dynClass := IndexErrorClass, equal' := False\<rparr>), p')))"

text \<open>\<open>DuplError::DuplError(ExcpError *excp) : AipsError(excp)\<close>\<close>

definition DuplError_Excp :: "ExcpError \<Rightarrow> ExcpError \<Rightarrow> Process \<Rightarrow> ExcpError Completion \<times> Process" where
  "DuplError_Excp this excp p =
     (case AipsError_Excp this excp p of
        (Exited n, p') \<Rightarrow> (Exited n, p')
      | (Returned base, p') \<Rightarrow>
          (case PCAST DuplErrorClass excp of
             Some tmp \<Rightarrow> (Returned (base\<lparr>dynClass := DuplErrorClass, equal' := True\<rparr>), p')
           | None \<Rightarrow> (Returned (base\<lparr>dynClass := DuplErrorClass, equal' := False\<rparr>), p')))"

text \<open>
  \<open>AbortError::AbortError(const Char *str) : AipsError(str)\<close>: the base class is
  initialised, the body writes two lines to \<open>cerr\<close> and calls \<open>exit(1)\<close>, which does
  not return. This constructor spells the first line "unrevoverable".
\<close>

definition AbortError_Char :: "ExcpError \<Rightarrow> string \<Rightarrow> Process \<Rightarrow> ExcpError Completion \<times> Process" where
  "AbortError_Char this str p =
     (case AipsError_Char this str p of
        (Exited n, p') \<Rightarrow> (Exited n, p')
      | (Returned base, p') \<Rightarrow>
          (Exited 1,
           put_cerr endl (put_cerr str
             (put_cerr endl (put_cerr ''An unrevoverable error occurred: '' p')))))"

text \<open>\<open>AbortError::AbortError(const String &str) : AipsError(str)\<close>\<close>

definition AbortError_String :: "ExcpError \<Rightarrow> string \<Rightarrow> Process \<Rightarrow> ExcpError Completion \<times> Process" where
  "AbortError_String this str p =
     (case AipsError_String this str p of
        (Exited n, p') \<Rightarrow> (Exited n, p')
      | (Returned base, p') \<Rightarrow>
          (Exited 1,
           put_cerr endl (put_cerr str
             (put_cerr endl (put_cerr ''An unrecoverable error occurred: '' p')))))"

text \<open>
  \<open>throw (E(args))\<close> as the caller of the throwing function sees it: the operand is
  constructed first; when the constructor returns, the object propagates to the caller,
  and when the constructor exits, the process has ended and nothing propagates.
\<close>

datatype Outcome = Propagates ExcpError | Terminates int

definition throw_stmt :: "(Process \<Rightarrow> ExcpError Completion \<times> Process) \<Rightarrow> Process \<Rightarrow> Outcome \<times> Process" where
  "throw_stmt ctor p =
     (case ctor p of
        (Returned e, p') \<Rightarrow> (Propagates e, p')
      | (Exited n, p') \<Rightarrow> (Terminates n, p'))"

section \<open>Plain columns (PlainColumn.h)\<close>

text \<open>
  The data members of \<open>PlainColumn\<close>; a pointer is an address, \<open>None\<close> the null
  pointer.
\<close>

record PlainColumn =
  dataManPtr_p :: "nat option"
  dataColPtr_p :: "nat option"
  colSetPtr_p :: "nat option"
  originalName_p :: string

text \<open>
  The argument of \<open>checkValueLength\<close> by its static type, which is what selects the
  overload: a \<open>const String*\<close>, a \<open>const Array<String>*\<close>, or a pointer to a value of
  any other type, which converts to \<open>const void*\<close>.
\<close>

datatype 'a ValueArg = StringValue string | ArrayStringValue "string list" | OtherValue 'a

fun isStringValue :: "'a ValueArg \<Rightarrow> bool" where
  "isStringValue (StringValue s) = True"
| "isStringValue v = False"

fun isArrayStringValue :: "'a ValueArg \<Rightarrow> bool" where
  "isArrayStringValue (ArrayStringValue a) = True"
| "isArrayStringValue v = False"

text \<open>
  \<open>inline void PlainColumn::checkValueLength (const void*) const {}\<close>. The function
  is \<open>const\<close> and returns nothing: the model returns the column as the call leaves it, or
  the error it signals.
\<close>

definition checkValueLength_void :: "PlainColumn \<Rightarrow> 'a \<Rightarrow> 'e + PlainColumn" where
  "checkValueLength_void col v = Inr col"

text \<open>
  The three overloads together. The bodies of the \<open>String\<close> and the
  \<open>Array<String>\<close> overload are in PlainColumn.cc, which is not among the sources: they
  are the parameters \<open>checkString\<close> and \<open>checkArrayString\<close>.
\<close>

definition checkValueLength ::
  "(PlainColumn \<Rightarrow> string \<Rightarrow> 'e + PlainColumn) \<Rightarrow> (PlainColumn \<Rightarrow> string list \<Rightarrow> 'e + PlainColumn)
   \<Rightarrow> PlainColumn \<Rightarrow> 'a ValueArg \<Rightarrow> 'e + PlainColumn" where
  "checkValueLength checkString checkArrayString col v =
     (case v of
        StringValue s \<Rightarrow> checkString col s
      | ArrayStringValue a \<Rightarrow> checkArrayString col a
      | OtherValue x \<Rightarrow> checkValueLength_void col x)"

section \<open>Record fields as arrays (Record2Interface.cc)\<close>

text \<open>
  The element types: \<open>uChar\<close>, \<open>Short\<close>, \<open>Int\<close>, \<open>uInt\<close> and \<open>Int64\<close> are
  machine integers of 8, 16, 32, 32 and 64 bits (\<open>Short\<close>, \<open>Int\<close> and \<open>Int64\<close> read
  as two's complement; the type \<open>Int\<close> is written \<open>Int'\<close>). \<open>Float\<close> and \<open>Double\<close>
  are the type parameters \<open>'f\<close> and \<open>'d\<close>: nothing below looks into a floating point
  value. \<open>Complex\<close> and \<open>DComplex\<close> are pairs (real part, imaginary part) of them.
\<close>

type_synonym uChar = "8 word"
type_synonym Short = "16 word"
type_synonym Int' = "32 word"
type_synonym uInt = "32 word"
type_synonym Int64 = "64 word"

text \<open>An \<open>Array<T>\<close>: its shape (an \<open>IPosition\<close>) and its elements.\<close>

record 'a Array =
  shape :: "nat list"
  data :: "'a list"

text \<open>
  What a field of a record holds: one value of an element type (a scalar field), or a
  shape and the values of one element type (an array field).
\<close>

datatype ('f, 'd) ScalarValue =
    BoolVal bool
  | UCharVal uChar
  | ShortVal Short
  | IntVal Int'
  | UIntVal uInt
  | Int64Val Int64
  | FloatVal 'f
  | DoubleVal 'd
  | ComplexVal "'f \<times> 'f"
  | DComplexVal "'d \<times> 'd"
  | StringVal string

datatype ('f, 'd) FieldValues =
    BoolVals "bool list"
  | UCharVals "uChar list"
  | ShortVals "Short list"
  | IntVals "Int' list"
  | UIntVals "uInt list"
  | Int64Vals "Int64 list"
  | FloatVals "'f list"
  | DoubleVals "'d list"
  | ComplexVals "('f \<times> 'f) list"
  | DComplexVals "('d \<times> 'd) list"
  | StringVals "string list"

datatype ('f, 'd) RecordField =
    ScalarField "('f, 'd) ScalarValue"
  | ArrayField "nat list" "('f, 'd) FieldValues"

text \<open>\<open>type(whichField)\<close>: the tag of the field, scalar or array.\<close>

fun scalarType :: "('f, 'd) ScalarValue \<Rightarrow> DataType" where
  "scalarType (BoolVal v) = TpBool"
| "scalarType (UCharVal v) = TpUChar"
| "scalarType (ShortVal v) = TpShort"
| "scalarType (IntVal v) = TpInt"
| "scalarType (UIntVal v) = TpUInt"
| "scalarType (Int64Val v) = TpInt64"
| "scalarType (FloatVal v) = TpFloat"
| "scalarType (DoubleVal v) = TpDouble"
| "scalarType (ComplexVal v) = TpComplex"
| "scalarType (DComplexVal v) = TpDComplex"
| "scalarType (StringVal v) = TpString"

fun arrayType :: "('f, 'd) FieldValues \<Rightarrow> DataType" where
  "arrayType (BoolVals vs) = TpArrayBool"
| "arrayType (UCharVals vs) = TpArrayUChar"
| "arrayType (ShortVals vs) = TpArrayShort"
| "arrayType (IntVals vs) = TpArrayInt"
| "arrayType (UIntVals vs) = TpArrayUInt"
| "arrayType (Int64Vals vs) = TpArrayInt64"
| "arrayType (FloatVals vs) = TpArrayFloat"
| "arrayType (DoubleVals vs) = TpArrayDouble"
| "arrayType (ComplexVals vs) = TpArrayComplex"
| "arrayType (DComplexVals vs) = TpArrayDComplex"
| "arrayType (StringVals vs) = TpArrayString"

fun type' :: "('f, 'd) RecordField \<Rightarrow> DataType" where
  "type' (ScalarField v) = scalarType v"
| "type' (ArrayField sh vs) = arrayType vs"

text \<open>
  The field looked at as an array. The ladders call the accessors for a scalar field as
  they do for an array field (\<open>case TpInt: case TpArrayInt:\<close> share one body), and a
  scalar is then the array of its one value, of shape \<open>[1]\<close>.
\<close>

fun asVector :: "('f, 'd) ScalarValue \<Rightarrow> ('f, 'd) FieldValues" where
  "asVector (BoolVal v) = BoolVals [v]"
| "asVector (UCharVal v) = UCharVals [v]"
| "asVector (ShortVal v) = ShortVals [v]"
| "asVector (IntVal v) = IntVals [v]"
| "asVector (UIntVal v) = UIntVals [v]"
| "asVector (Int64Val v) = Int64Vals [v]"
| "asVector (FloatVal v) = FloatVals [v]"
| "asVector (DoubleVal v) = DoubleVals [v]"
| "asVector (ComplexVal v) = ComplexVals [v]"
| "asVector (DComplexVal v) = DComplexVals [v]"
| "asVector (StringVal v) = StringVals [v]"

fun fieldShape :: "('f, 'd) RecordField \<Rightarrow> nat list" where
  "fieldShape (ScalarField v) = [1]"
| "fieldShape (ArrayField sh vs) = sh"

fun fieldValues :: "('f, 'd) RecordField \<Rightarrow> ('f, 'd) FieldValues" where
  "fieldValues (ScalarField v) = asVector v"
| "fieldValues (ArrayField sh vs) = vs"


datatype RecordError = IncorrectDataType

text \<open>
  The accessors \<open>asArrayBool\<close>, \<open>asArrayuChar\<close>, ..., \<open>asArrayString\<close> of
  \<open>RecordInterface\<close> are not among the sources, and the spec does not describe them.
  For a field that holds the element type of the accessor, the accessor is the view of
  the stored values as an array. What an accessor does with a field of another element
  type is written nowhere in the sources or the spec: it is a parameter, one function for
  each accessor.
\<close>

record ('f, 'd) OtherType =
  otherBool :: "('f, 'd) RecordField \<Rightarrow> RecordError + bool Array"
  otheruChar :: "('f, 'd) RecordField \<Rightarrow> RecordError + uChar Array"
  otherShort :: "('f, 'd) RecordField \<Rightarrow> RecordError + Short Array"
  otherInt :: "('f, 'd) RecordField \<Rightarrow> RecordError + Int' Array"
  otheruInt :: "('f, 'd) RecordField \<Rightarrow> RecordError + uInt Array"
  otherInt64 :: "('f, 'd) RecordField \<Rightarrow> RecordError + Int64 Array"
  otherFloat :: "('f, 'd) RecordField \<Rightarrow> RecordError + 'f Array"
  otherDouble :: "('f, 'd) RecordField \<Rightarrow> RecordError + 'd Array"
  otherComplex :: "('f, 'd) RecordField \<Rightarrow> RecordError + ('f \<times> 'f) Array"
  otherDComplex :: "('f, 'd) RecordField \<Rightarrow> RecordError + ('d \<times> 'd) Array"
  otherString :: "('f, 'd) RecordField \<Rightarrow> RecordError + string Array"

text \<open>Modelled from the spec: \<open>asArrayBool\<close> (missing), as described above.\<close>

definition asArrayBool :: "('f, 'd) OtherType \<Rightarrow> ('f, 'd) RecordField \<Rightarrow> RecordError + bool Array" where
  "asArrayBool other field =
     (case fieldValues field of
        BoolVals xs \<Rightarrow> Inr \<lparr>shape = fieldShape field, data = xs\<rparr>
      | _ \<Rightarrow> otherBool other field)"

text \<open>Modelled from the spec: \<open>asArrayuChar\<close> (missing), as described above.\<close>

definition asArrayuChar :: "('f, 'd) OtherType \<Rightarrow> ('f, 'd) RecordField \<Rightarrow> RecordError + uChar Array" where
  "asArrayuChar other field =
     (case fieldValues field of
        UCharVals xs \<Rightarrow> Inr \<lparr>shape = fieldShape field, data = xs\<rparr>
      | _ \<Rightarrow> otheruChar other field)"

text \<open>Modelled from the spec: \<open>asArrayShort\<close> (missing), as described above.\<close>

definition asArrayShort :: "('f, 'd) OtherType \<Rightarrow> ('f, 'd) RecordField \<Rightarrow> RecordError + Short Array" where
  "asArrayShort other field =
     (case fieldValues field of
        ShortVals xs \<Rightarrow> Inr \<lparr>shape = fieldShape field, data = xs\<rparr>
      | _ \<Rightarrow> otherShort other field)"

text \<open>Modelled from the spec: \<open>asArrayInt\<close> (missing), as described above.\<close>

definition asArrayInt :: "('f, 'd) OtherType \<Rightarrow> ('f, 'd) RecordField \<Rightarrow> RecordError + Int' Array" where
  "asArrayInt other field =
     (case fieldValues field of
        IntVals xs \<Rightarrow> Inr \<lparr>shape = fieldShape field, data = xs\<rparr>
      | _ \<Rightarrow> otherInt other field)"

text \<open>Modelled from the spec: \<open>asArrayuInt\<close> (missing), as described above.\<close>

definition asArrayuInt :: "('f, 'd) OtherType \<Rightarrow> ('f, 'd) RecordField \<Rightarrow> RecordError + uInt Array" where
  "asArrayuInt other field =
     (case fieldValues field of
        UIntVals xs \<Rightarrow> Inr \<lparr>shape = fieldShape field, data = xs\<rparr>
      | _ \<Rightarrow> otheruInt other field)"

text \<open>Modelled from the spec: \<open>asArrayInt64\<close> (missing), as described above.\<close>

definition asArrayInt64 :: "('f, 'd) OtherType \<Rightarrow> ('f, 'd) RecordField \<Rightarrow> RecordError + Int64 Array" where
  "asArrayInt64 other field =
     (case fieldValues field of
        Int64Vals xs \<Rightarrow> Inr \<lparr>shape = fieldShape field, data = xs\<rparr>
      | _ \<Rightarrow> otherInt64 other field)"

text \<open>Modelled from the spec: \<open>asArrayFloat\<close> (missing), as described above.\<close>

definition asArrayFloat :: "('f, 'd) OtherType \<Rightarrow> ('f, 'd) RecordField \<Rightarrow> RecordError + 'f Array" where
  "asArrayFloat other field =
     (case fieldValues field of
        FloatVals xs \<Rightarrow> Inr \<lparr>shape = fieldShape field, data = xs\<rparr>
      | _ \<Rightarrow> otherFloat other field)"

text \<open>Modelled from the spec: \<open>asArrayDouble\<close> (missing), as described above.\<close>

definition asArrayDouble :: "('f, 'd) OtherType \<Rightarrow> ('f, 'd) RecordField \<Rightarrow> RecordError + 'd Array" where
  "asArrayDouble other field =
     (case fieldValues field of
        DoubleVals xs \<Rightarrow> Inr \<lparr>shape = fieldShape field, data = xs\<rparr>
      | _ \<Rightarrow> otherDouble other field)"

text \<open>Modelled from the spec: \<open>asArrayComplex\<close> (missing), as described above.\<close>

definition asArrayComplex ::
  "('f, 'd) OtherType \<Rightarrow> ('f, 'd) RecordField \<Rightarrow> RecordError + ('f \<times> 'f) Array" where
  "asArrayComplex other field =
     (case fieldValues field of
        ComplexVals xs \<Rightarrow> Inr \<lparr>shape = fieldShape field, data = xs\<rparr>
      | _ \<Rightarrow> otherComplex other field)"

text \<open>Modelled from the spec: \<open>asArrayDComplex\<close> (missing), as described above.\<close>

definition asArrayDComplex ::
  "('f, 'd) OtherType \<Rightarrow> ('f, 'd) RecordField \<Rightarrow> RecordError + ('d \<times> 'd) Array" where
  "asArrayDComplex other field =
     (case fieldValues field of
        DComplexVals xs \<Rightarrow> Inr \<lparr>shape = fieldShape field, data = xs\<rparr>
      | _ \<Rightarrow> otherDComplex other field)"

text \<open>Modelled from the spec: \<open>asArrayString\<close> (missing), as described above.\<close>

definition asArrayString :: "('f, 'd) OtherType \<Rightarrow> ('f, 'd) RecordField \<Rightarrow> RecordError + string Array" where
  "asArrayString other field =
     (case fieldValues field of
        StringVals xs \<Rightarrow> Inr \<lparr>shape = fieldShape field, data = xs\<rparr>
      | _ \<Rightarrow> otherString other field)"

text \<open>
  Modelled from the spec: \<open>convertArray\<close> is the array library's "element-wise
  conversion between numeric element types" and is not among the sources. The three
  statements \<open>Array<F> tmp = asArrayF (id); arr.resize (tmp.shape()); convertArray (arr, tmp);\<close>
  of a case of a ladder give the result the shape of \<open>tmp\<close> and each element of \<open>tmp\<close>
  converted by the C++ conversion from \<open>F\<close> to the target type; an error of the
  accessor propagates.
\<close>

definition convertArray :: "('a \<Rightarrow> 'b) \<Rightarrow> 'a Array \<Rightarrow> 'b Array" where
  "convertArray cast tmp = \<lparr>shape = shape tmp, data = map cast (data tmp)\<rparr>"

text \<open>The three statements of a case together: the accessor, then the conversion.\<close>

definition converted :: "('a \<Rightarrow> 'b) \<Rightarrow> RecordError + 'a Array \<Rightarrow> RecordError + 'b Array" where
  "converted cast r = (case r of Inl e \<Rightarrow> Inl e | Inr tmp \<Rightarrow> Inr (convertArray cast tmp))"

text \<open>
  The C++ conversions between the integer types: to a wider type an unsigned value is
  zero-extended (\<open>ucast\<close>) and a signed one sign-extended (\<open>scast\<close>); to a type of the
  same or a smaller width the low bits are kept; to \<open>Bool\<close> a value is true when it is
  not zero. The conversions that produce or take a floating point value are parameters:
  \<open>intToFloat\<close> and \<open>intToDouble\<close> take the integer value, \<open>doubleToFloat\<close> narrows
  and \<open>floatToDouble\<close> widens; \<open>zeroFloat\<close> and \<open>zeroDouble\<close> are the imaginary part
  that a real value gets as a complex one.
\<close>

record ('f, 'd) FloatConversions =
  intToFloat :: "int \<Rightarrow> 'f"
  intToDouble :: "int \<Rightarrow> 'd"
  doubleToFloat :: "'d \<Rightarrow> 'f"
  floatToDouble :: "'f \<Rightarrow> 'd"
  zeroFloat :: 'f
  zeroDouble :: 'd

text \<open>\<open>Array<Bool> RecordInterface::toArrayBool (const RecordFieldId& id) const\<close>\<close>

definition toArrayBool :: "('f, 'd) OtherType \<Rightarrow> ('f, 'd) RecordField \<Rightarrow> RecordError + bool Array" where
  "toArrayBool other field =
     (let t = type' field in
      if t = TpInt \<or> t = TpArrayInt then converted (\<lambda>x. x \<noteq> 0) (asArrayInt other field)
      else asArrayBool other field)"







text \<open>\<open>Array<Double> RecordInterface::toArrayDouble (const RecordFieldId& id) const\<close>\<close>

definition toArrayDouble ::
  "('f, 'd) OtherType \<Rightarrow> ('f, 'd) FloatConversions \<Rightarrow> ('f, 'd) RecordField \<Rightarrow> RecordError + 'd Array" where
  "toArrayDouble other conv field =
     (let t = type' field in
      if t = TpUChar \<or> t = TpArrayUChar
        then converted (\<lambda>x. intToDouble conv (uint x)) (asArrayuChar other field)
      else if t = TpShort \<or> t = TpArrayShort
        then converted (\<lambda>x. intToDouble conv (sint x)) (asArrayShort other field)
      else if t = TpInt \<or> t = TpArrayInt
        then converted (\<lambda>x. intToDouble conv (sint x)) (asArrayInt other field)
      else if t = TpUInt \<or> t = TpArrayUInt
        then converted (\<lambda>x. intToDouble conv (uint x)) (asArrayuInt other field)
      else if t = TpInt64 \<or> t = TpArrayInt64
        then converted (\<lambda>x. intToDouble conv (sint x)) (asArrayInt64 other field)
      else if t = TpFloat \<or> t = TpArrayFloat
        then converted (floatToDouble conv) (asArrayFloat other field)
      else asArrayDouble other field)"

text \<open>\<open>Array<DComplex> RecordInterface::toArrayDComplex (const RecordFieldId& id) const\<close>\<close>

definition toArrayDComplex ::
  "('f, 'd) OtherType \<Rightarrow> ('f, 'd) FloatConversions \<Rightarrow> ('f, 'd) RecordField
   \<Rightarrow> RecordError + ('d \<times> 'd) Array" where
  "toArrayDComplex other conv field =
     (let t = type' field in
      if t = TpUChar \<or> t = TpArrayUChar \<or> t = TpShort \<or> t = TpArrayShort
         \<or> t = TpInt \<or> t = TpArrayInt \<or> t = TpUInt \<or> t = TpArrayUInt
         \<or> t = TpInt64 \<or> t = TpArrayInt64 \<or> t = TpFloat \<or> t = TpArrayFloat
        then converted (\<lambda>x. (x, zeroDouble conv)) (toArrayDouble other conv field)
      else if t = TpDouble \<or> t = TpArrayDouble
        then converted (\<lambda>x. (x, zeroDouble conv)) (asArrayDouble other field)
      else if t = TpComplex \<or> t = TpArrayComplex
        then converted (\<lambda>(re, im). (floatToDouble conv re, floatToDouble conv im))
               (asArrayComplex other field)
      else asArrayDComplex other field)"


text \<open>\<open>Array<String> RecordInterface::toArrayString (const RecordFieldId& id) const\<close>\<close>

definition toArrayString :: "('f, 'd) OtherType \<Rightarrow> ('f, 'd) RecordField \<Rightarrow> RecordError + string Array" where
  "toArrayString other field = asArrayString other field"

section \<open>The region handler in memory (RegionHandlerMemory.h)\<close>

text \<open>
  Modelled from the spec: \<open>RegionHandler::GroupType\<close> is declared in RegionHandler.h,
  which is not among the sources. It selects the regions group, the masks group, or
  (\<open>Any\<close>, the default of the lookups) both.
\<close>

datatype GroupType = Regions | Masks | Any

text \<open>The two errors of the handler, each an \<open>AipsError\<close> that names the region.\<close>

datatype RegionError = DuplicateError string | NotFoundError string

text \<open>
  The data members \<open>String itsDefaultName\<close> and \<open>std::map<String, void*> itsMaps[2]\<close>
  (group 0 holds the regions, group 1 the masks; a stored \<open>void*\<close> is the address of
  an \<open>ImageRegion\<close> that the handler owns), together with the part of the free store
  that holds \<open>ImageRegion\<close> objects: \<open>objects\<close> maps an address to the object that
  lives there, and \<open>nextFree\<close> is the address that the next \<open>new\<close> returns. The
  content of an \<open>ImageRegion\<close> is the type parameter \<open>'r\<close>.
\<close>

record 'r RegionHandlerMemory =
  itsDefaultName :: string
  itsMaps :: "int \<Rightarrow> string \<rightharpoonup> nat"
  objects :: "nat \<rightharpoonup> 'r"
  nextFree :: nat

text \<open>
  Modelled from the spec: the constructor \<open>RegionHandlerMemory()\<close> is in
  RegionHandlerMemory.cc, which is not among the sources. A new handler has no default
  mask (the empty string "means unset") and no region or mask.
\<close>

definition emptyHandler :: "'r RegionHandlerMemory" where
  "emptyHandler =
     \<lparr>itsDefaultName = [], itsMaps = (\<lambda>g. Map.empty), objects = Map.empty, nextFree = 0\<rparr>"

text \<open>
  Allocation and release of an \<open>ImageRegion\<close> on the free store: \<open>new\<close> with a copy of
  \<open>r\<close> (what \<open>clone\<close> does) and \<open>delete\<close>.
\<close>

definition newRegion :: "'r \<Rightarrow> 'r RegionHandlerMemory \<Rightarrow> nat \<times> 'r RegionHandlerMemory" where
  "newRegion r s =
     (nextFree s, s\<lparr>objects := (objects s)(nextFree s \<mapsto> r), nextFree := Suc (nextFree s)\<rparr>)"

definition deleteRegion :: "nat \<Rightarrow> 'r RegionHandlerMemory \<Rightarrow> 'r RegionHandlerMemory" where
  "deleteRegion p s = s\<lparr>objects := (objects s)(p := None)\<rparr>"

text \<open>
  The bodies of the member functions are in RegionHandlerMemory.cc, which is not among
  the sources. Each definition below follows section 4.4 of the spec and the comment
  written at its declaration in RegionHandlerMemory.h (both quoted).
\<close>

text \<open>
  Modelled from the spec: the body of \<open>canDefineRegion\<close> is missing. "This class can
  define and handle regions."
\<close>

definition canDefineRegion :: "'r RegionHandlerMemory \<Rightarrow> bool" where
  "canDefineRegion s = True"

text \<open>
  Modelled from the spec: the body of \<open>setDefaultMask\<close> is missing. "If the given
  maskName is the empty string, the default mask is unset"; it is a "single mutable slot"
  and "no existence check is required when setting".
\<close>

definition setDefaultMask :: "'r RegionHandlerMemory \<Rightarrow> string \<Rightarrow> 'r RegionHandlerMemory" where
  "setDefaultMask s maskName = s\<lparr>itsDefaultName := maskName\<rparr>"

text \<open>
  Modelled from the spec: the body of \<open>getDefaultMask\<close> is missing. "An empty string is
  returned if no default mask."
\<close>

definition getDefaultMask :: "'r RegionHandlerMemory \<Rightarrow> string" where
  "getDefaultMask s = itsDefaultName s"

text \<open>
  Modelled from the spec: the body of \<open>findRegionGroup\<close> is missing. "Find group number of the region group to which a region belongs
  (i.e. the field number of the "regions" or "masks" field). -1 is returned if the region
  does not exist. Optionally an exception is thrown if the region does not exist." The
  group type selects which of the two groups are looked at, the regions (field 0) first.
\<close>

definition findRegionGroup ::
  "'r RegionHandlerMemory \<Rightarrow> string \<Rightarrow> GroupType \<Rightarrow> bool \<Rightarrow> RegionError + int" where
  "findRegionGroup s regionName groupType throwIfUnknown =
     (if groupType \<noteq> Masks \<and> itsMaps s 0 regionName \<noteq> None then Inr 0
      else if groupType \<noteq> Regions \<and> itsMaps s 1 regionName \<noteq> None then Inr 1
      else if throwIfUnknown then Inl (NotFoundError regionName)
      else Inr (- 1))"

text \<open>
  Modelled from the spec: the body of \<open>findRegion\<close> is missing. "It is used by getRegion (which makes a clone of the object). A zero
  pointer is returned if the region does not exist."
\<close>

definition findRegion ::
  "'r RegionHandlerMemory \<Rightarrow> string \<Rightarrow> GroupType \<Rightarrow> bool \<Rightarrow> RegionError + nat option" where
  "findRegion s name groupType throwIfUnknown =
     (case findRegionGroup s name groupType throwIfUnknown of
        Inl e \<Rightarrow> Inl e
      | Inr groupField \<Rightarrow> if groupField \<ge> 0 then Inr (itsMaps s groupField name) else Inr None)"

text \<open>
  Modelled from the spec: the body of \<open>hasRegion\<close> is missing. "Is there a region with
  the given name?"; it "looks up in the selected namespace, or both if Any".
\<close>

definition hasRegion :: "'r RegionHandlerMemory \<Rightarrow> string \<Rightarrow> GroupType \<Rightarrow> bool" where
  "hasRegion s name groupType =
     (case findRegionGroup s name groupType False of Inl e \<Rightarrow> False | Inr groupField \<Rightarrow> groupField \<ge> 0)"

text \<open>
  Modelled from the spec: the body of \<open>getRegion\<close> is missing. "Get a region with the
  given name from the given group. A zero pointer is returned if the region does not exist. The caller has to delete the ImageRegion
  object created." The declaration has the parameter \<open>throwIfUnknown = True\<close>, as that of
  \<open>findRegion\<close> has, through which the lookup goes. The model follows the parameter, as
  the spec does ("returns an empty result (no throw) if throwIfUnknown is false and the
  name is absent; otherwise signals not-found"); the comment at the declaration also
  keeps the sentence "No exception is thrown if the region does not exist". The result is
  the pointer handed to the caller (\<open>None\<close> the zero pointer) and the state, in which the
  clone has been allocated. Every stored pointer of a well-formed state has its object;
  the model hands out the zero pointer for a stored pointer without one.
\<close>

definition getRegion ::
  "'r RegionHandlerMemory \<Rightarrow> string \<Rightarrow> GroupType \<Rightarrow> bool
   \<Rightarrow> RegionError + (nat option \<times> 'r RegionHandlerMemory)" where
  "getRegion s name groupType throwIfUnknown =
     (case findRegion s name groupType throwIfUnknown of
        Inl e \<Rightarrow> Inl e
      | Inr None \<Rightarrow> Inr (None, s)
      | Inr (Some regPtr) \<Rightarrow>
          (case objects s regPtr of
             None \<Rightarrow> Inr (None, s)
           | Some r \<Rightarrow> (case newRegion r s of (q, s') \<Rightarrow> Inr (Some q, s'))))"

text \<open>
  Modelled from the spec: what "removed" means for an entry of a group that owns its
  object: the object is deleted and the entry erased from the map of the group.
\<close>

definition eraseRegion :: "'r RegionHandlerMemory \<Rightarrow> int \<Rightarrow> string \<Rightarrow> 'r RegionHandlerMemory" where
  "eraseRegion s groupField name =
     (case itsMaps s groupField name of
        None \<Rightarrow> s
      | Some regPtr \<Rightarrow>
          (deleteRegion regPtr s)\<lparr>itsMaps := (itsMaps s)(groupField := (itsMaps s groupField)(name := None))\<rparr>)"

text \<open>
  Modelled from the spec: the body of \<open>defineRegion\<close> is missing. "if a region/mask
  of that name exists and overwrite is false, signals a duplicate-name error; otherwise
  replaces it. groupType selects the regions or masks namespace (namespaces are disjoint
  mappings; a name may legally exist in both simultaneously). Always signals success
  otherwise." The name is looked up in the group that the group type selects (the masks
  for \<open>Masks\<close>, the regions otherwise) and in no other; the comment at the declaration
  ("If overwrite=False, an exception will be thrown if the region already exists in the
  "regions" or "masks" group. Otherwise the region will be removed first. It always
  returns a True status.") is read the same way, group by group.
\<close>

definition defineRegion ::
  "'r RegionHandlerMemory \<Rightarrow> string \<Rightarrow> 'r \<Rightarrow> GroupType \<Rightarrow> bool
   \<Rightarrow> RegionError + (bool \<times> 'r RegionHandlerMemory)" where
  "defineRegion s name region groupType overwrite =
     (let groupField = (if groupType = Masks then 1 else 0) in
      if itsMaps s groupField name \<noteq> None \<and> \<not> overwrite then Inl (DuplicateError name)
      else
        (case newRegion region (eraseRegion s groupField name) of
           (p, s2) \<Rightarrow>
             Inr (True,
                  s2\<lparr>itsMaps := (itsMaps s2)(groupField := (itsMaps s2 groupField)(name \<mapsto> p))\<rparr>)))"

text \<open>
  Modelled from the spec: the body of \<open>renameRegion\<close> is missing. "signals not-found if
  oldName absent; if newName already present, same overwrite semantics as defineRegion;
  atomic with respect to the two namespaces searched (old entry removed from the namespace
  in which it was found, new entry inserted in the same namespace)." At the declaration:
  "The region name is looked up in the given group(s). An exception is thrown if the old
  region name does not exist. It always returns a True status." The new name is looked
  up in the group into which the entry goes.
\<close>

definition renameRegion ::
  "'r RegionHandlerMemory \<Rightarrow> string \<Rightarrow> string \<Rightarrow> GroupType \<Rightarrow> bool
   \<Rightarrow> RegionError + (bool \<times> 'r RegionHandlerMemory)" where
  "renameRegion s newName oldName groupType overwrite =
     (case findRegionGroup s oldName groupType True of
        Inl e \<Rightarrow> Inl e
      | Inr oldGroupField \<Rightarrow>
          if itsMaps s oldGroupField newName \<noteq> None \<and> \<not> overwrite
          then Inl (DuplicateError newName)
          else
            (let s1 = eraseRegion s oldGroupField newName
             in case itsMaps s1 oldGroupField oldName of
                  None \<Rightarrow> Inl (NotFoundError oldName)
                | Some regPtr \<Rightarrow>
                    Inr (True,
                         s1\<lparr>itsMaps := (itsMaps s1)(oldGroupField :=
                               ((itsMaps s1 oldGroupField)(oldName := None))(newName \<mapsto> regPtr))\<rparr>)))"

text \<open>
  Modelled from the spec: the body of \<open>removeRegion\<close> is missing. "Remove a region from the given group. Optionally an exception is
  thrown if the region does not exist. It always returns a True status."
\<close>

definition removeRegion ::
  "'r RegionHandlerMemory \<Rightarrow> string \<Rightarrow> GroupType \<Rightarrow> bool
   \<Rightarrow> RegionError + (bool \<times> 'r RegionHandlerMemory)" where
  "removeRegion s name groupType throwIfUnknown =
     (case findRegionGroup s name groupType throwIfUnknown of
        Inl e \<Rightarrow> Inl e
      | Inr groupField \<Rightarrow>
          if groupField \<ge> 0 then Inr (True, eraseRegion s groupField name) else Inr (True, s))"

text \<open>
  The states that the operations above keep to, starting from the empty handler: every
  stored pointer is the address of a live object; no object is stored under two entries;
  and every live object lies below \<open>nextFree\<close>. A name may be in both groups.
\<close>

definition wellFormed :: "'r RegionHandlerMemory \<Rightarrow> bool" where
  "wellFormed s =
     ((\<forall>g n p. (g = 0 \<or> g = 1) \<and> itsMaps s g n = Some p \<longrightarrow> objects s p \<noteq> None)
      \<and> (\<forall>g n g' n' p. (g = 0 \<or> g = 1) \<and> (g' = 0 \<or> g' = 1)
            \<and> itsMaps s g n = Some p \<and> itsMaps s g' n' = Some p \<longrightarrow> g = g' \<and> n = n')
      \<and> (\<forall>p. objects s p \<noteq> None \<longrightarrow> p < nextFree s))"

text \<open>The state that a call leaves behind: the new state, or the old one when it threw.\<close>

definition stateAfter ::
  "'r RegionHandlerMemory \<Rightarrow> RegionError + ('a \<times> 'r RegionHandlerMemory) \<Rightarrow> 'r RegionHandlerMemory" where
  "stateAfter s r = (case r of Inl e \<Rightarrow> s | Inr (v, s') \<Rightarrow> s')"

section \<open>Theorems\<close>

text \<open>
  C10. The scalar and the array classification never overlap; \<open>isScalar\<close> holds exactly
  for the tags \<open>TpBool\<close> through \<open>TpString\<close>, \<open>isArray\<close> exactly for
  \<open>TpArrayBool\<close> through \<open>TpArrayString\<close>, and \<open>TpTable\<close>, \<open>TpRecord\<close> and
  \<open>TpOther\<close> are neither scalar nor array.
\<close>

theorem isScalar_isArray_partition:
  "\<not> (isScalar t \<and> isArray t)
   \<and> (isScalar t \<longleftrightarrow> t \<in> {TpBool, TpChar, TpUChar, TpShort, TpUShort, TpInt, TpUInt,
          TpFloat, TpDouble, TpComplex, TpDComplex, TpString})
   \<and> (isArray t \<longleftrightarrow> t \<in> {TpArrayBool, TpArrayChar, TpArrayUChar, TpArrayShort,
          TpArrayUShort, TpArrayInt, TpArrayUInt, TpArrayFloat, TpArrayDouble,
          TpArrayComplex, TpArrayDComplex, TpArrayString})
   \<and> \<not> isScalar TpTable \<and> \<not> isArray TpTable
   \<and> \<not> isScalar TpRecord \<and> \<not> isArray TpRecord
   \<and> \<not> isScalar TpOther \<and> \<not> isArray TpOther"
  by (cases t) (simp_all add: isScalar_def isArray_def)

text \<open>
  C8. Constructing an \<open>AbortError\<close> (from a \<open>Char*\<close> or from a \<open>String\<close>) writes a
  diagnostic that carries the message to \<open>cerr\<close> and ends the process with exit status 1:
  the constructor does not return, so a \<open>throw\<close> of it propagates nothing to the caller.
  Every other constructor of Error2.cc returns its object, and a \<open>throw\<close> of that object
  propagates to the caller with \<open>cerr\<close> untouched.
\<close>

theorem AbortError_exits:
  "AbortError_String this str p =
     (Exited 1, p\<lparr>cerr := cerr p @ ''An unrecoverable error occurred: '' @ endl @ str @ endl\<rparr>)
   \<and> AbortError_Char this str p =
     (Exited 1, p\<lparr>cerr := cerr p @ ''An unrevoverable error occurred: '' @ endl @ str @ endl\<rparr>)
   \<and> fst (throw_stmt (AbortError_String this str) p) = Terminates 1
   \<and> fst (throw_stmt (AbortError_Char this str) p) = Terminates 1
   \<and> (\<forall>e. fst (throw_stmt (AbortError_String this str) p) \<noteq> Propagates e)
   \<and> (\<forall>e. fst (throw_stmt (AbortError_Char this str) p) \<noteq> Propagates e)
   \<and> (\<forall>r. fst (AbortError_String this str p) \<noteq> Returned r)
   \<and> (\<forall>r. fst (AbortError_Char this str p) \<noteq> Returned r)
   \<and> (\<exists>e. throw_stmt (AipsError_String this str) p = (Propagates e, p) \<and> message e = str)
   \<and> (\<exists>e. throw_stmt (AipsError_Char this str) p = (Propagates e, p) \<and> message e = str)
   \<and> (\<exists>e. throw_stmt (AipsError_Excp this excp) p = (Propagates e, p))
   \<and> (\<exists>e. throw_stmt (AllocError_Excp this excp) p = (Propagates e, p))
   \<and> (\<exists>e. throw_stmt (IndexError_Excp this excp) p = (Propagates e, p))
   \<and> (\<exists>e. throw_stmt (DuplError_Excp this excp) p = (Propagates e, p))"
proof -
  have abort: "AbortError_String this str p =
     (Exited 1, p\<lparr>cerr := cerr p @ ''An unrecoverable error occurred: '' @ endl @ str @ endl\<rparr>)"
    "AbortError_Char this str p =
     (Exited 1, p\<lparr>cerr := cerr p @ ''An unrevoverable error occurred: '' @ endl @ str @ endl\<rparr>)"
    by (simp_all add: AbortError_String_def AbortError_Char_def AipsError_String_def
        AipsError_Char_def put_cerr_def)
  have aips: "\<exists>e. throw_stmt (AipsError_String this str) p = (Propagates e, p) \<and> message e = str"
    "\<exists>e. throw_stmt (AipsError_Char this str) p = (Propagates e, p) \<and> message e = str"
    by (simp_all add: throw_stmt_def AipsError_String_def AipsError_Char_def)
  have base: "\<exists>b. AipsError_Excp this excp p = (Returned b, p)"
    by (simp add: AipsError_Excp_def split: option.split)
  then obtain b where b: "AipsError_Excp this excp p = (Returned b, p)" ..
  have excp: "\<exists>e. throw_stmt (AipsError_Excp this excp) p = (Propagates e, p)"
    "\<exists>e. throw_stmt (AllocError_Excp this excp) p = (Propagates e, p)"
    "\<exists>e. throw_stmt (IndexError_Excp this excp) p = (Propagates e, p)"
    "\<exists>e. throw_stmt (DuplError_Excp this excp) p = (Propagates e, p)"
    using b
    by (simp_all add: throw_stmt_def AllocError_Excp_def IndexError_Excp_def DuplError_Excp_def
        split: option.split)
  from abort aips excp show ?thesis
    by (simp add: throw_stmt_def)
qed

text \<open>
  C9. For a value that is neither a \<open>String\<close> nor an \<open>Array<String>\<close>,
  \<open>checkValueLength\<close> does nothing: it signals no error and leaves the column as it
  was, whatever the two string overloads do and whatever maximum length is declared.
\<close>

theorem checkValueLength_other_noop:
  "\<not> isStringValue v \<Longrightarrow> \<not> isArrayStringValue v \<Longrightarrow>
     checkValueLength checkString checkArrayString col v = Inr col"
  by (cases v) (simp_all add: checkValueLength_def checkValueLength_void_def)

theorem checkValueLength_other_noop_witness:
  "\<not> isStringValue (OtherValue (42 :: int)) \<and> \<not> isArrayStringValue (OtherValue (42 :: int))
   \<and> checkValueLength (\<lambda>c s. Inl ''too long'') (\<lambda>c a. Inl ''too long'')
        \<lparr>dataManPtr_p = Some 1, dataColPtr_p = Some 2, colSetPtr_p = Some 3,
          originalName_p = ''DATA''\<rparr> (OtherValue (42 :: int))
       = Inr \<lparr>dataManPtr_p = Some 1, dataColPtr_p = Some 2, colSetPtr_p = Some 3,
          originalName_p = ''DATA''\<rparr>"
  using checkValueLength_other_noop [of "OtherValue (42 :: int)" "\<lambda>c s. Inl ''too long''"
      "\<lambda>c a. Inl ''too long''"
      "\<lparr>dataManPtr_p = Some 1, dataColPtr_p = Some 2, colSetPtr_p = Some 3,
          originalName_p = ''DATA''\<rparr>"]
  by simp

section \<open>Record fields as arrays: the tags and the ladders\<close>


















section \<open>The region handler: the well-formed states and what the calls do to them\<close>

lemma hasRegion_iff:
  "hasRegion s n Regions \<longleftrightarrow> itsMaps s 0 n \<noteq> None"
  "hasRegion s n Masks \<longleftrightarrow> itsMaps s 1 n \<noteq> None"
  "hasRegion s n Any \<longleftrightarrow> itsMaps s 0 n \<noteq> None \<or> itsMaps s 1 n \<noteq> None"
  by (simp_all add: hasRegion_def findRegionGroup_def)

lemma findRegionGroup_found:
  "findRegionGroup s n gt t = Inr g \<Longrightarrow> g \<ge> 0 \<Longrightarrow> (g = 0 \<or> g = 1) \<and> itsMaps s g n \<noteq> None"
  by (simp add: findRegionGroup_def split: if_splits)

lemma wellFormed_emptyHandler: "wellFormed emptyHandler"
  by (simp add: wellFormed_def emptyHandler_def)

lemma wellFormedI:
  assumes "\<And>g n p. g = 0 \<or> g = 1 \<Longrightarrow> itsMaps s g n = Some p \<Longrightarrow> objects s p \<noteq> None"
    and "\<And>g n g' n' p. g = 0 \<or> g = 1 \<Longrightarrow> g' = 0 \<or> g' = 1 \<Longrightarrow> itsMaps s g n = Some p
           \<Longrightarrow> itsMaps s g' n' = Some p \<Longrightarrow> g = g' \<and> n = n'"
    and "\<And>p. objects s p \<noteq> None \<Longrightarrow> p < nextFree s"
  shows "wellFormed s"
  unfolding wellFormed_def
proof (intro conjI allI impI)
  fix g n p assume "(g = 0 \<or> g = 1) \<and> itsMaps s g n = Some p"
  then show "objects s p \<noteq> None" using assms(1) [of g n p] by simp
next
  fix g n g' n' p
  assume a: "(g = 0 \<or> g = 1) \<and> (g' = 0 \<or> g' = 1) \<and> itsMaps s g n = Some p \<and> itsMaps s g' n' = Some p"
  show "g = g'" using assms(2) [of g g' n p n'] a by simp
  show "n = n'" using assms(2) [of g g' n p n'] a by simp
next
  fix p assume "objects s p \<noteq> None" then show "p < nextFree s" by (rule assms(3))
qed

lemma wellFormed_live:
  assumes "wellFormed s" "g = 0 \<or> g = 1" "itsMaps s g n = Some p"
  shows "objects s p \<noteq> None"
proof -
  from assms(1)
  have "\<forall>g n p. (g = 0 \<or> g = 1) \<and> itsMaps s g n = Some p \<longrightarrow> objects s p \<noteq> None"
    unfolding wellFormed_def by (elim conjE)
  then have "(g = 0 \<or> g = 1) \<and> itsMaps s g n = Some p \<longrightarrow> objects s p \<noteq> None"
    by (elim allE)
  with assms(2,3) show ?thesis by simp
qed

lemma wellFormed_once:
  assumes "wellFormed s" "g = 0 \<or> g = 1" "g' = 0 \<or> g' = 1" "itsMaps s g n = Some p"
    "itsMaps s g' n' = Some p"
  shows "g = g' \<and> n = n'"
proof -
  from assms(1)
  have "\<forall>g n g' n' p. (g = 0 \<or> g = 1) \<and> (g' = 0 \<or> g' = 1)
            \<and> itsMaps s g n = Some p \<and> itsMaps s g' n' = Some p \<longrightarrow> g = g' \<and> n = n'"
    unfolding wellFormed_def by (elim conjE)
  then have "(g = 0 \<or> g = 1) \<and> (g' = 0 \<or> g' = 1)
            \<and> itsMaps s g n = Some p \<and> itsMaps s g' n' = Some p \<longrightarrow> g = g' \<and> n = n'"
    by (elim allE)
  with assms(2-5) show ?thesis by simp
qed

lemma wellFormed_below:
  assumes "wellFormed s" "objects s p \<noteq> None" shows "p < nextFree s"
proof -
  from assms(1) have "\<forall>p. objects s p \<noteq> None \<longrightarrow> p < nextFree s"
    unfolding wellFormed_def by (elim conjE)
  with assms(2) show ?thesis by simp
qed

lemma wellFormed_eraseRegion:
  assumes wf: "wellFormed s" and g: "g = 0 \<or> g = 1"
  shows "wellFormed (eraseRegion s g n)"
proof (cases "itsMaps s g n")
  case None
  then show ?thesis using wf by (simp add: eraseRegion_def)
next
  case (Some p)
  let ?s = "eraseRegion s g n"
  have maps: "\<And>g' m. itsMaps ?s g' m = (if g' = g \<and> m = n then None else itsMaps s g' m)"
    using Some by (simp add: eraseRegion_def deleteRegion_def)
  have objs: "\<And>q. objects ?s q = (if q = p then None else objects s q)"
    using Some by (simp add: eraseRegion_def deleteRegion_def)
  have nf: "nextFree ?s = nextFree s"
    using Some by (simp add: eraseRegion_def deleteRegion_def)
  show ?thesis
  proof (rule wellFormedI)
    fix g' m q assume g': "g' = 0 \<or> g' = 1" and q: "itsMaps ?s g' m = Some q"
    then have ne: "\<not> (g' = g \<and> m = n)" and old: "itsMaps s g' m = Some q"
      by (simp_all add: maps split: if_splits)
    have "q \<noteq> p" using wellFormed_once [OF wf g' g old, of n] Some ne by auto
    then show "objects ?s q \<noteq> None"
      using wellFormed_live [OF wf g' old] by (simp add: objs)
  next
    fix g1 n1 g2 n2 q
    assume "g1 = 0 \<or> g1 = 1" "g2 = 0 \<or> g2 = 1" "itsMaps ?s g1 n1 = Some q" "itsMaps ?s g2 n2 = Some q"
    then show "g1 = g2 \<and> n1 = n2"
      using wellFormed_once [OF wf, of g1 g2 n1 q n2] by (simp add: maps split: if_splits)
  next
    fix q assume "objects ?s q \<noteq> None"
    then show "q < nextFree ?s"
      using wellFormed_below [OF wf, of q] by (simp add: objs nf split: if_splits)
  qed
qed

lemma itsMaps_eraseRegion:
  "itsMaps (eraseRegion s g n) g' m = (if g' = g \<and> m = n then None else itsMaps s g' m)"
  by (simp add: eraseRegion_def deleteRegion_def split: option.split)

lemma nextFree_eraseRegion: "nextFree (eraseRegion s g n) = nextFree s"
  by (simp add: eraseRegion_def deleteRegion_def split: option.split)

lemma wellFormed_insert:
  assumes wf: "wellFormed s" and g: "g = 0 \<or> g = 1"
    and s': "s' = (case newRegion r s of (p, s2) \<Rightarrow> s2\<lparr>itsMaps := (itsMaps s2)(g := (itsMaps s2 g)(n \<mapsto> p))\<rparr>)"
  shows "wellFormed s'"
proof -
  let ?p = "nextFree s"
  let ?s = s'
  have maps: "\<And>g' m. itsMaps s' g' m = (if g' = g \<and> m = n then Some ?p else itsMaps s g' m)"
    by (simp add: s' newRegion_def)
  have objs: "\<And>q. objects s' q = (if q = ?p then Some r else objects s q)"
    by (simp add: s' newRegion_def)
  have nf: "nextFree s' = Suc (nextFree s)"
    by (simp add: s' newRegion_def)
  have fresh: "\<And>g' m. g' = 0 \<or> g' = 1 \<Longrightarrow> itsMaps s g' m \<noteq> Some ?p"
  proof
    fix g' m assume g': "g' = 0 \<or> g' = 1" and "itsMaps s g' m = Some ?p"
    then have "objects s ?p \<noteq> None" using wellFormed_live [OF wf] by blast
    then have "?p < nextFree s" by (rule wellFormed_below [OF wf])
    then show False by simp
  qed
  show ?thesis
  proof (rule wellFormedI)
    fix g' m q assume g': "g' = 0 \<or> g' = 1" and q: "itsMaps ?s g' m = Some q"
    show "objects ?s q \<noteq> None"
    proof (cases "g' = g \<and> m = n")
      case True then show ?thesis using q by (simp add: maps objs)
    next
      case False
      then have "itsMaps s g' m = Some q" using q by (auto simp: maps split: if_splits)
      then show ?thesis using wellFormed_live [OF wf g'] by (simp add: objs)
    qed
  next
    fix g1 n1 g2 n2 q
    assume g1: "g1 = 0 \<or> g1 = 1" and g2: "g2 = 0 \<or> g2 = 1"
      and q1: "itsMaps ?s g1 n1 = Some q" and q2: "itsMaps ?s g2 n2 = Some q"
    show "g1 = g2 \<and> n1 = n2"
    proof (cases "g1 = g \<and> n1 = n")
      case True
      then have "q = ?p" using q1 by (simp add: maps)
      then show ?thesis using True q2 fresh [OF g2, of n2] by (simp add: maps split: if_splits)
    next
      case False
      then have o1: "itsMaps s g1 n1 = Some q" using q1 by (auto simp: maps split: if_splits)
      show ?thesis
      proof (cases "g2 = g \<and> n2 = n")
        case True
        then have "q = ?p" using q2 by (simp add: maps)
        then show ?thesis using o1 fresh [OF g1, of n1] by simp
      next
        case False
        then have "itsMaps s g2 n2 = Some q" using q2 by (auto simp: maps split: if_splits)
        then show ?thesis using wellFormed_once [OF wf g1 g2 o1] by simp
      qed
    qed
  next
    fix q assume "objects ?s q \<noteq> None"
    then show "q < nextFree ?s"
      using wellFormed_below [OF wf, of q] by (auto simp: objs nf split: if_splits)
  qed
qed

lemma wellFormed_defineRegion:
  assumes wf: "wellFormed s" and d: "defineRegion s n r gt ov = Inr (b, s')"
  shows "wellFormed s'"
proof -
  define g where "g = (if gt = Masks then 1 else 0 :: int)"
  have g: "g = 0 \<or> g = 1" by (simp add: g_def)
  have wf1: "wellFormed (eraseRegion s g n)"
    using wf g by (rule wellFormed_eraseRegion)
  have "s' = (case newRegion r (eraseRegion s g n) of
                (p, s2) \<Rightarrow> s2\<lparr>itsMaps := (itsMaps s2)(g := (itsMaps s2 g)(n \<mapsto> p))\<rparr>)"
    using d by (simp add: defineRegion_def g_def Let_def split: if_splits prod.splits)
  then show ?thesis by (rule wellFormed_insert [OF wf1 g])
qed

lemma wellFormed_removeRegion:
  assumes wf: "wellFormed s" and d: "removeRegion s n gt t = Inr (b, s')"
  shows "wellFormed s'"
proof -
  obtain gf where gf: "findRegionGroup s n gt t = Inr gf"
    using d by (cases "findRegionGroup s n gt t") (simp_all add: removeRegion_def)
  show ?thesis
    using d gf wf findRegionGroup_found [OF gf]
    by (auto simp: removeRegion_def wellFormed_eraseRegion split: if_splits)
qed

lemma wellFormed_move:
  assumes wf: "wellFormed s" and og: "og = 0 \<or> og = 1"
    and old: "itsMaps s og old = Some p"
    and a: "itsMaps s og new = None"
    and s': "s' = s\<lparr>itsMaps := (itsMaps s)(og := ((itsMaps s og)(old := None))(new \<mapsto> p))\<rparr>"
  shows "wellFormed s'"
proof -
  have maps: "\<And>g' m. itsMaps s' g' m =
      (if g' = og \<and> m = new then Some p else if g' = og \<and> m = old then None else itsMaps s g' m)"
    by (simp add: s')
  have objs: "objects s' = objects s" by (simp add: s')
  have nf: "nextFree s' = nextFree s" by (simp add: s')
  have on: "old \<noteq> new" using old a by auto
  show ?thesis
  proof (rule wellFormedI)
    fix g' m q assume g': "g' = 0 \<or> g' = 1" and q: "itsMaps s' g' m = Some q"
    show "objects s' q \<noteq> None"
    proof (cases "g' = og \<and> m = new")
      case True
      then have "q = p" using q by (simp add: maps)
      then show ?thesis using wellFormed_live [OF wf og old] by (simp add: objs)
    next
      case False
      then have "itsMaps s g' m = Some q" using q by (auto simp: maps split: if_splits)
      then show ?thesis using wellFormed_live [OF wf g'] by (simp add: objs)
    qed
  next
    fix g1 n1 g2 n2 q
    assume g1: "g1 = 0 \<or> g1 = 1" and g2: "g2 = 0 \<or> g2 = 1"
      and q1: "itsMaps s' g1 n1 = Some q" and q2: "itsMaps s' g2 n2 = Some q"
    have other: "\<And>g' m. g' = 0 \<or> g' = 1 \<Longrightarrow> \<not> (g' = og \<and> m = new) \<Longrightarrow> itsMaps s' g' m = Some p
        \<Longrightarrow> False"
    proof -
      fix g' m assume g': "g' = 0 \<or> g' = 1" and ne: "\<not> (g' = og \<and> m = new)"
        and e: "itsMaps s' g' m = Some p"
      then have n2: "\<not> (g' = og \<and> m = old)" and o: "itsMaps s g' m = Some p"
        by (auto simp: maps split: if_splits)
      from wellFormed_once [OF wf g' og o old] n2 show False by simp
    qed
    show "g1 = g2 \<and> n1 = n2"
    proof (cases "g1 = og \<and> n1 = new")
      case True
      then have qp: "q = p" using q1 by (simp add: maps)
      show ?thesis
      proof (cases "g2 = og \<and> n2 = new")
        case True with \<open>g1 = og \<and> n1 = new\<close> show ?thesis by simp
      next
        case False
        then show ?thesis using other [OF g2 False] q2 qp by simp
      qed
    next
      case False
      note f1 = False
      show ?thesis
      proof (cases "g2 = og \<and> n2 = new")
        case True
        then have "q = p" using q2 by (simp add: maps)
        then show ?thesis using other [OF g1 f1] q1 by simp
      next
        case False
        have o1: "itsMaps s g1 n1 = Some q" using q1 f1 by (auto simp: maps split: if_splits)
        have o2: "itsMaps s g2 n2 = Some q" using q2 False by (auto simp: maps split: if_splits)
        show ?thesis using wellFormed_once [OF wf g1 g2 o1 o2] by simp
      qed
    qed
  next
    fix q assume "objects s' q \<noteq> None"
    then show "q < nextFree s'"
      using wellFormed_below [OF wf, of q] by (simp add: objs nf)
  qed
qed

lemma wellFormed_renameRegion:
  assumes wf: "wellFormed s" and d: "renameRegion s new old gt ov = Inr (b, s')"
  shows "wellFormed s'"
proof -
  obtain og where og: "findRegionGroup s old gt True = Inr og"
    using d by (cases "findRegionGroup s old gt True") (simp_all add: renameRegion_def)
  define s1 where "s1 = eraseRegion s og new"
  have og01: "og = 0 \<or> og = 1"
    using og by (simp add: findRegionGroup_def split: if_splits)
  have wf1: "wellFormed s1"
    unfolding s1_def using wf og01 by (rule wellFormed_eraseRegion)
  have absent: "itsMaps s1 og new = None"
    by (simp add: s1_def itsMaps_eraseRegion)
  obtain p where p: "itsMaps s1 og old = Some p"
    and s': "s' = s1\<lparr>itsMaps := (itsMaps s1)(og := ((itsMaps s1 og)(old := None))(new \<mapsto> p))\<rparr>"
    using d og
    by (auto simp: renameRegion_def s1_def Let_def split: if_splits option.splits)
  show ?thesis
    by (rule wellFormed_move [OF wf1 og01 p absent s'])
qed

lemma wellFormed_getRegion:
  assumes wf: "wellFormed s" and d: "getRegion s n gt t = Inr (q, s')"
  shows "wellFormed s'"
proof (cases "s' = s")
  case True then show ?thesis using wf by simp
next
  case False
  then obtain r where s': "s' = s\<lparr>objects := (objects s)(nextFree s \<mapsto> r), nextFree := Suc (nextFree s)\<rparr>"
    using d by (auto simp: getRegion_def newRegion_def split: sum.splits option.splits)
  have maps: "itsMaps s' = itsMaps s" by (simp add: s')
  have objs: "\<And>q. objects s' q = (if q = nextFree s then Some r else objects s q)" by (simp add: s')
  have nf: "nextFree s' = Suc (nextFree s)" by (simp add: s')
  show ?thesis
  proof (rule wellFormedI)
    fix g' m q assume "g' = 0 \<or> g' = 1" "itsMaps s' g' m = Some q"
    then show "objects s' q \<noteq> None"
      using wellFormed_live [OF wf, of g' m q] by (simp add: maps objs)
  next
    fix g1 n1 g2 n2 q
    assume "g1 = 0 \<or> g1 = 1" "g2 = 0 \<or> g2 = 1" "itsMaps s' g1 n1 = Some q" "itsMaps s' g2 n2 = Some q"
    then show "g1 = g2 \<and> n1 = n2"
      using wellFormed_once [OF wf, of g1 g2 n1 q n2] by (simp add: maps)
  next
    fix q assume "objects s' q \<noteq> None"
    then show "q < nextFree s'"
      using wellFormed_below [OF wf, of q] by (auto simp: objs nf split: if_splits)
  qed
qed

lemma findRegionGroup_absent:
  "\<not> hasRegion s n gt \<Longrightarrow> findRegionGroup s n gt t = (if t then Inl (NotFoundError n) else Inr (- 1))"
  by (cases gt) (auto simp: hasRegion_def findRegionGroup_def split: if_splits)

lemma findRegionGroup_present:
  "hasRegion s n gt \<Longrightarrow> \<exists>g. findRegionGroup s n gt t = Inr g \<and> (g = 0 \<or> g = 1) \<and> itsMaps s g n \<noteq> None
     \<and> (g = 0 \<longrightarrow> gt \<noteq> Masks) \<and> (g = 1 \<longrightarrow> gt \<noteq> Regions)"
  by (cases gt) (auto simp: hasRegion_def findRegionGroup_def split: if_splits)

lemma defineRegion_exists:
  "itsMaps s (if gt = Masks then 1 else 0) n \<noteq> None \<Longrightarrow>
     defineRegion s n r gt False = Inl (DuplicateError n)"
  by (simp add: defineRegion_def Let_def)

lemma objects_eraseRegion:
  "objects (eraseRegion s g n) q = (if itsMaps s g n = Some q then None else objects s q)"
  by (auto simp: eraseRegion_def deleteRegion_def split: option.split)

lemma defineRegion_succeeds:
  assumes "ov \<or> itsMaps s (if gt = Masks then 1 else 0) n = None"
  shows "\<exists>s'. defineRegion s n r gt ov = Inr (True, s')
           \<and> itsMaps s' (if gt = Masks then 1 else 0) n = Some (nextFree s)
           \<and> itsMaps s' (if gt = Masks then 0 else 1) = itsMaps s (if gt = Masks then 0 else 1)
           \<and> objects s' (nextFree s) = Some r \<and> nextFree s' = Suc (nextFree s)
           \<and> (\<forall>q. q \<noteq> nextFree s \<and> itsMaps s (if gt = Masks then 1 else 0) n \<noteq> Some q
                 \<longrightarrow> objects s' q = objects s q)"
  using assms
  by (auto simp: defineRegion_def newRegion_def Let_def nextFree_eraseRegion itsMaps_eraseRegion
      objects_eraseRegion)

lemma defineRegion_result:
  assumes "defineRegion s n r gt ov = Inr (b, s')"
  shows "b \<and> itsMaps s' (if gt = Masks then 1 else 0) n = Some (nextFree s)
         \<and> itsMaps s' (if gt = Masks then 0 else 1) = itsMaps s (if gt = Masks then 0 else 1)
         \<and> objects s' (nextFree s) = Some r"
proof -
  have ok: "ov \<or> itsMaps s (if gt = Masks then 1 else 0) n = None"
  proof (rule ccontr)
    assume "\<not> (ov \<or> itsMaps s (if gt = Masks then 1 else 0) n = None)"
    then have "\<not> ov" and "itsMaps s (if gt = Masks then 1 else 0) n \<noteq> None" by simp_all
    then have "defineRegion s n r gt ov = Inl (DuplicateError n)"
      using defineRegion_exists [of s gt n r] by simp
    then show False using assms by simp
  qed
  from defineRegion_succeeds [OF ok, of r] assms show ?thesis by auto
qed

lemma stateAfter_defineRegion_exists:
  "itsMaps (stateAfter s (defineRegion s n r Regions False)) 0 n \<noteq> None"
proof (cases "itsMaps s 0 n = None")
  case True
  then show ?thesis
    using defineRegion_succeeds [of False s Regions n r] by (auto simp: stateAfter_def)
next
  case False
  then show ?thesis
    using defineRegion_exists [of s Regions n r] by (auto simp: stateAfter_def)
qed

lemma getRegion_stored:
  assumes "itsMaps s 0 n = Some p" "objects s p = Some r"
  shows "getRegion s n Any t = Inr (Some (nextFree s), snd (newRegion r s))
         \<and> objects (snd (newRegion r s)) (nextFree s) = Some r"
  using assms
  by (simp add: getRegion_def findRegion_def findRegionGroup_def newRegion_def)

lemma removeRegion_frame:
  assumes "removeRegion s n gt t = Inr (b, s')"
  shows "b \<and> (gt = Regions \<longrightarrow> itsMaps s' 1 = itsMaps s 1)
           \<and> (gt = Masks \<longrightarrow> itsMaps s' 0 = itsMaps s 0)"
  using assms
  by (auto simp: removeRegion_def findRegionGroup_def eraseRegion_def deleteRegion_def
      split: if_splits option.splits)

lemma coexist:
  assumes fresh: "\<not> hasRegion s n Any"
  shows "\<exists>s1 s2 p q. defineRegion s n R Regions False = Inr (True, s1)
        \<and> defineRegion s1 n M Masks False = Inr (True, s2)
        \<and> hasRegion s2 n Regions \<and> hasRegion s2 n Masks
        \<and> findRegion s2 n Regions True = Inr (Some p) \<and> objects s2 p = Some R
        \<and> findRegion s2 n Masks True = Inr (Some q) \<and> objects s2 q = Some M
        \<and> (\<exists>s3. removeRegion s2 n Regions t = Inr (True, s3)
             \<and> itsMaps s3 1 = itsMaps s2 1 \<and> hasRegion s3 n Masks \<and> \<not> hasRegion s3 n Regions
             \<and> findRegion s3 n Masks True = Inr (Some q) \<and> objects s3 q = Some M)"
proof -
  have n0: "itsMaps s 0 n = None" and n1: "itsMaps s 1 n = None"
    using fresh by (simp_all add: hasRegion_iff)
  let ?p = "nextFree s"
  obtain s1 where d1: "defineRegion s n R Regions False = Inr (True, s1)"
    and m1: "itsMaps s1 0 n = Some ?p" and o1: "itsMaps s1 1 = itsMaps s 1"
    and c1: "objects s1 ?p = Some R" and f1: "nextFree s1 = Suc ?p"
    using defineRegion_succeeds [of False s Regions n R] n0 by auto
  have n1': "itsMaps s1 1 n = None" using o1 n1 by simp
  let ?q = "Suc ?p"
  obtain s2 where d2: "defineRegion s1 n M Masks False = Inr (True, s2)"
    and m2: "itsMaps s2 1 n = Some ?q" and o2: "itsMaps s2 0 = itsMaps s1 0"
    and c2: "objects s2 ?q = Some M"
    and k2: "\<forall>q. q \<noteq> nextFree s1 \<and> itsMaps s1 1 n \<noteq> Some q \<longrightarrow> objects s2 q = objects s1 q"
    using defineRegion_succeeds [of False s1 Masks n M] n1' f1 by auto
  have m2r: "itsMaps s2 0 n = Some ?p" using o2 m1 by simp
  have cp: "objects s2 ?p = Some R" using k2 f1 n1' c1 by simp
  have hr: "hasRegion s2 n Regions" and hm: "hasRegion s2 n Masks"
    using m2r m2 by (simp_all add: hasRegion_iff)
  have fr: "findRegion s2 n Regions True = Inr (Some ?p)"
    using m2r by (simp add: findRegion_def findRegionGroup_def)
  have fm: "findRegion s2 n Masks True = Inr (Some ?q)"
    using m2 by (simp add: findRegion_def findRegionGroup_def)
  define s3 where "s3 = eraseRegion s2 0 n"
  have r3: "removeRegion s2 n Regions t = Inr (True, s3)"
    using m2r by (simp add: removeRegion_def findRegionGroup_def s3_def)
  have k3: "itsMaps s3 1 = itsMaps s2 1"
    using removeRegion_frame [OF r3] by simp
  have h3: "hasRegion s3 n Masks" using k3 m2 by (simp add: hasRegion_iff)
  have g3: "\<not> hasRegion s3 n Regions"
    by (simp add: hasRegion_iff s3_def itsMaps_eraseRegion)
  have f3: "findRegion s3 n Masks True = Inr (Some ?q)"
    using k3 m2 by (simp add: findRegion_def findRegionGroup_def)
  have c3: "objects s3 ?q = Some M"
    using c2 m2r by (simp add: s3_def objects_eraseRegion)
  from d1 d2 hr hm fr cp fm c2 r3 k3 h3 g3 f3 c3 show ?thesis by blast
qed

lemma wellFormed_example:
  "wellFormed \<lparr>itsDefaultName = [], itsMaps = (\<lambda>g. Map.empty)(0 := [''x'' \<mapsto> 0]),
       objects = [0 \<mapsto> (7::nat)], nextFree = 1\<rparr>"
  by (auto simp: wellFormed_def split: if_splits)

section \<open>The region handler: the claims\<close>

text \<open>
  C3. Whatever the state and the name: after \<open>defineRegion(n, R1, regions, false)\<close> (which
  either returns True or signals Duplicate, the name being there already), a second
  \<open>defineRegion(n, R2, regions, false)\<close> signals Duplicate; the same call with
  \<open>overwrite = true\<close> returns True, and \<open>getRegion(n)\<close> then hands out an object with
  the content R2.
\<close>

theorem defineRegion_overwrite:
  "defineRegion (stateAfter s (defineRegion s n R1 Regions False)) n R2 Regions False
      = Inl (DuplicateError n)
   \<and> (\<exists>s2. defineRegion (stateAfter s (defineRegion s n R1 Regions False)) n R2 Regions True
             = Inr (True, s2)
        \<and> hasRegion s2 n Regions
        \<and> (\<exists>q s3. getRegion s2 n Any True = Inr (Some q, s3) \<and> objects s3 q = Some R2))
   \<and> ((\<exists>s1. defineRegion s n R1 Regions False = Inr (True, s1))
        \<or> defineRegion s n R1 Regions False = Inl (DuplicateError n))"
proof -
  let ?s1 = "stateAfter s (defineRegion s n R1 Regions False)"
  have dup: "defineRegion ?s1 n R2 Regions False = Inl (DuplicateError n)"
    using stateAfter_defineRegion_exists [of s n R1] defineRegion_exists [of ?s1 Regions n R2]
    by simp
  obtain s2 where s2: "defineRegion ?s1 n R2 Regions True = Inr (True, s2)"
    and m: "itsMaps s2 0 n = Some (nextFree ?s1)" and o: "objects s2 (nextFree ?s1) = Some R2"
    using defineRegion_succeeds [of True ?s1 Regions n R2] by auto
  have has: "hasRegion s2 n Regions" using m by (simp add: hasRegion_iff)
  have get: "\<exists>q s3. getRegion s2 n Any True = Inr (Some q, s3) \<and> objects s3 q = Some R2"
    using getRegion_stored [OF m o] by blast
  have first: "(\<exists>s1. defineRegion s n R1 Regions False = Inr (True, s1))
        \<or> defineRegion s n R1 Regions False = Inl (DuplicateError n)"
  proof (cases "itsMaps s 0 n = None")
    case True
    then show ?thesis using defineRegion_succeeds [of False s Regions n R1] by auto
  next
    case False
    then show ?thesis using defineRegion_exists [of s Regions n R1] by auto
  qed
  from dup s2 has get first show ?thesis by blast
qed

theorem defineRegion_overwrite_witness:
  "defineRegion (stateAfter emptyHandler (defineRegion emptyHandler ''r'' (1::nat) Regions False))
      ''r'' 2 Regions False = Inl (DuplicateError ''r'')
   \<and> (\<exists>s2. defineRegion (stateAfter emptyHandler (defineRegion emptyHandler ''r'' (1::nat) Regions False))
               ''r'' 2 Regions True = Inr (True, s2)
        \<and> hasRegion s2 ''r'' Regions
        \<and> (\<exists>q s3. getRegion s2 ''r'' Any True = Inr (Some q, s3) \<and> objects s3 q = Some 2))"
  using defineRegion_overwrite [of "emptyHandler :: nat RegionHandlerMemory" "''r''" 1 2]
  by (elim conjE) (intro conjI)

text \<open>
  C4. The two groups are independent maps. For a name that is in neither group,
  \<open>defineRegion(n, R, regions)\<close> and then \<open>defineRegion(n, M, masks)\<close> both return
  True; afterwards \<open>hasRegion(n, regions)\<close> and \<open>hasRegion(n, masks)\<close> both hold, each
  group holding its own object (R and M); and \<open>removeRegion(n, regions)\<close> then leaves the
  masks map as it was, so that \<open>hasRegion(n, masks)\<close> still holds, with the content M.
  In every state, defining a name in one group succeeds when the name is new in that
  group or \<open>overwrite\<close> is true, whatever the other group holds, and defining in or
  removing from one group leaves the map of the other group unchanged.
\<close>

theorem groups_independent:
  "(\<not> hasRegion s n Any \<longrightarrow>
      (\<exists>s1 s2 p q. defineRegion s n R Regions False = Inr (True, s1)
        \<and> defineRegion s1 n M Masks False = Inr (True, s2)
        \<and> hasRegion s2 n Regions \<and> hasRegion s2 n Masks
        \<and> findRegion s2 n Regions True = Inr (Some p) \<and> objects s2 p = Some R
        \<and> findRegion s2 n Masks True = Inr (Some q) \<and> objects s2 q = Some M
        \<and> (\<exists>s3. removeRegion s2 n Regions t = Inr (True, s3)
             \<and> itsMaps s3 1 = itsMaps s2 1 \<and> hasRegion s3 n Masks \<and> \<not> hasRegion s3 n Regions
             \<and> findRegion s3 n Masks True = Inr (Some q) \<and> objects s3 q = Some M)))
   \<and> (ov \<or> \<not> hasRegion s n Masks \<longrightarrow>
        (\<exists>s'. defineRegion s n M Masks ov = Inr (True, s') \<and> hasRegion s' n Masks
           \<and> itsMaps s' 0 = itsMaps s 0 \<and> hasRegion s' m Regions = hasRegion s m Regions))
   \<and> (ov \<or> \<not> hasRegion s n Regions \<longrightarrow>
        (\<exists>s'. defineRegion s n R Regions ov = Inr (True, s') \<and> hasRegion s' n Regions
           \<and> itsMaps s' 1 = itsMaps s 1 \<and> hasRegion s' m Masks = hasRegion s m Masks))
   \<and> (removeRegion s n Regions t = Inr (b, s') \<longrightarrow>
        b \<and> itsMaps s' 1 = itsMaps s 1 \<and> hasRegion s' m Masks = hasRegion s m Masks)
   \<and> (removeRegion s n Masks t = Inr (b, s') \<longrightarrow>
        b \<and> itsMaps s' 0 = itsMaps s 0 \<and> hasRegion s' m Regions = hasRegion s m Regions)"
proof (intro conjI impI)
  assume "\<not> hasRegion s n Any"
  then show "\<exists>s1 s2 p q. defineRegion s n R Regions False = Inr (True, s1)
        \<and> defineRegion s1 n M Masks False = Inr (True, s2)
        \<and> hasRegion s2 n Regions \<and> hasRegion s2 n Masks
        \<and> findRegion s2 n Regions True = Inr (Some p) \<and> objects s2 p = Some R
        \<and> findRegion s2 n Masks True = Inr (Some q) \<and> objects s2 q = Some M
        \<and> (\<exists>s3. removeRegion s2 n Regions t = Inr (True, s3)
             \<and> itsMaps s3 1 = itsMaps s2 1 \<and> hasRegion s3 n Masks \<and> \<not> hasRegion s3 n Regions
             \<and> findRegion s3 n Masks True = Inr (Some q) \<and> objects s3 q = Some M)"
    by (rule coexist)
next
  assume "ov \<or> \<not> hasRegion s n Masks"
  then have "ov \<or> itsMaps s (if Masks = Masks then 1 else 0) n = None"
    by (simp add: hasRegion_iff)
  from defineRegion_succeeds [OF this, of M]
  show "\<exists>s'. defineRegion s n M Masks ov = Inr (True, s') \<and> hasRegion s' n Masks
           \<and> itsMaps s' 0 = itsMaps s 0 \<and> hasRegion s' m Regions = hasRegion s m Regions"
    by (auto simp: hasRegion_iff)
next
  assume "ov \<or> \<not> hasRegion s n Regions"
  then have "ov \<or> itsMaps s (if Regions = Masks then 1 else 0) n = None"
    by (simp add: hasRegion_iff)
  from defineRegion_succeeds [OF this, of R]
  show "\<exists>s'. defineRegion s n R Regions ov = Inr (True, s') \<and> hasRegion s' n Regions
           \<and> itsMaps s' 1 = itsMaps s 1 \<and> hasRegion s' m Masks = hasRegion s m Masks"
    by (auto simp: hasRegion_iff)
next
  assume "removeRegion s n Regions t = Inr (b, s')"
  from removeRegion_frame [OF this]
  show "b" "itsMaps s' 1 = itsMaps s 1" "hasRegion s' m Masks = hasRegion s m Masks"
    by (simp_all add: hasRegion_iff)
next
  assume "removeRegion s n Masks t = Inr (b, s')"
  from removeRegion_frame [OF this]
  show "b" "itsMaps s' 0 = itsMaps s 0" "hasRegion s' m Regions = hasRegion s m Regions"
    by (simp_all add: hasRegion_iff)
qed

theorem groups_independent_witness:
  "\<not> hasRegion (emptyHandler :: nat RegionHandlerMemory) ''x'' Any
   \<and> (\<exists>s1 s2 p q. defineRegion (emptyHandler :: nat RegionHandlerMemory) ''x'' 7 Regions False
          = Inr (True, s1)
        \<and> defineRegion s1 ''x'' 8 Masks False = Inr (True, s2)
        \<and> hasRegion s2 ''x'' Regions \<and> hasRegion s2 ''x'' Masks
        \<and> findRegion s2 ''x'' Regions True = Inr (Some p) \<and> objects s2 p = Some 7
        \<and> findRegion s2 ''x'' Masks True = Inr (Some q) \<and> objects s2 q = Some 8
        \<and> (\<exists>s3. removeRegion s2 ''x'' Regions True = Inr (True, s3)
             \<and> itsMaps s3 1 = itsMaps s2 1 \<and> hasRegion s3 ''x'' Masks
             \<and> \<not> hasRegion s3 ''x'' Regions
             \<and> findRegion s3 ''x'' Masks True = Inr (Some q) \<and> objects s3 q = Some 8))
   \<and> hasRegion \<lparr>itsDefaultName = [], itsMaps = (\<lambda>g. Map.empty)(0 := [''x'' \<mapsto> 0]),
       objects = [0 \<mapsto> (7::nat)], nextFree = 1\<rparr> ''x'' Regions
   \<and> \<not> hasRegion \<lparr>itsDefaultName = [], itsMaps = (\<lambda>g. Map.empty)(0 := [''x'' \<mapsto> 0]),
       objects = [0 \<mapsto> (7::nat)], nextFree = 1\<rparr> ''x'' Masks
   \<and> (\<exists>s'. defineRegion \<lparr>itsDefaultName = [], itsMaps = (\<lambda>g. Map.empty)(0 := [''x'' \<mapsto> 0]),
       objects = [0 \<mapsto> (7::nat)], nextFree = 1\<rparr> ''x'' 8 Masks False = Inr (True, s')
        \<and> hasRegion s' ''x'' Masks \<and> hasRegion s' ''x'' Regions)
   \<and> hasRegion \<lparr>itsDefaultName = [], itsMaps = (\<lambda>g. Map.empty)(1 := [''x'' \<mapsto> 0]),
       objects = [0 \<mapsto> (8::nat)], nextFree = 1\<rparr> ''x'' Masks
   \<and> \<not> hasRegion \<lparr>itsDefaultName = [], itsMaps = (\<lambda>g. Map.empty)(1 := [''x'' \<mapsto> 0]),
       objects = [0 \<mapsto> (8::nat)], nextFree = 1\<rparr> ''x'' Regions
   \<and> (\<exists>s'. defineRegion \<lparr>itsDefaultName = [], itsMaps = (\<lambda>g. Map.empty)(1 := [''x'' \<mapsto> 0]),
       objects = [0 \<mapsto> (8::nat)], nextFree = 1\<rparr> ''x'' 7 Regions False = Inr (True, s')
        \<and> hasRegion s' ''x'' Regions \<and> hasRegion s' ''x'' Masks)
   \<and> (\<exists>s'. removeRegion \<lparr>itsDefaultName = [],
       itsMaps = (\<lambda>g. Map.empty)(0 := [''x'' \<mapsto> 0], 1 := [''x'' \<mapsto> 1]),
       objects = [0 \<mapsto> (7::nat), 1 \<mapsto> 8], nextFree = 2\<rparr> ''x'' Regions True = Inr (True, s')
        \<and> hasRegion s' ''x'' Masks \<and> \<not> hasRegion s' ''x'' Regions)
   \<and> (\<exists>s'. removeRegion \<lparr>itsDefaultName = [],
       itsMaps = (\<lambda>g. Map.empty)(0 := [''x'' \<mapsto> 0], 1 := [''x'' \<mapsto> 1]),
       objects = [0 \<mapsto> (7::nat), 1 \<mapsto> 8], nextFree = 2\<rparr> ''x'' Masks True = Inr (True, s')
        \<and> hasRegion s' ''x'' Regions \<and> \<not> hasRegion s' ''x'' Masks)"
proof -
  let ?E = "emptyHandler :: nat RegionHandlerMemory"
  let ?S1 = "\<lparr>itsDefaultName = [], itsMaps = (\<lambda>g. Map.empty)(0 := [''x'' \<mapsto> 0]),
       objects = [0 \<mapsto> (7::nat)], nextFree = 1\<rparr>"
  let ?SM = "\<lparr>itsDefaultName = [], itsMaps = (\<lambda>g. Map.empty)(1 := [''x'' \<mapsto> 0]),
       objects = [0 \<mapsto> (8::nat)], nextFree = 1\<rparr>"
  let ?S2 = "\<lparr>itsDefaultName = [],
       itsMaps = (\<lambda>g. Map.empty)(0 := [''x'' \<mapsto> 0], 1 := [''x'' \<mapsto> 1]),
       objects = [0 \<mapsto> (7::nat), 1 \<mapsto> 8], nextFree = 2\<rparr>"
  have e: "\<not> hasRegion ?E ''x'' Any" by (simp add: hasRegion_iff emptyHandler_def)
  have a: "\<exists>s1 s2 p q. defineRegion ?E ''x'' 7 Regions False = Inr (True, s1)
        \<and> defineRegion s1 ''x'' 8 Masks False = Inr (True, s2)
        \<and> hasRegion s2 ''x'' Regions \<and> hasRegion s2 ''x'' Masks
        \<and> findRegion s2 ''x'' Regions True = Inr (Some p) \<and> objects s2 p = Some 7
        \<and> findRegion s2 ''x'' Masks True = Inr (Some q) \<and> objects s2 q = Some 8
        \<and> (\<exists>s3. removeRegion s2 ''x'' Regions True = Inr (True, s3)
             \<and> itsMaps s3 1 = itsMaps s2 1 \<and> hasRegion s3 ''x'' Masks
             \<and> \<not> hasRegion s3 ''x'' Regions
             \<and> findRegion s3 ''x'' Masks True = Inr (Some q) \<and> objects s3 q = Some 8)"
    using groups_independent [where s = ?E and n = "''x''" and R = 7 and M = 8 and t = True] e
    by blast
  have h1: "hasRegion ?S1 ''x'' Regions" and n1: "\<not> hasRegion ?S1 ''x'' Masks"
    by (simp_all add: hasRegion_iff)
  have b: "\<exists>s'. defineRegion ?S1 ''x'' 8 Masks False = Inr (True, s')
        \<and> hasRegion s' ''x'' Masks \<and> hasRegion s' ''x'' Regions"
    using groups_independent [where s = ?S1 and n = "''x''" and M = 8 and ov = False
        and m = "''x''"] h1 n1
    by blast
  have hm: "hasRegion ?SM ''x'' Masks" and nm: "\<not> hasRegion ?SM ''x'' Regions"
    by (simp_all add: hasRegion_iff)
  have c: "\<exists>s'. defineRegion ?SM ''x'' 7 Regions False = Inr (True, s')
        \<and> hasRegion s' ''x'' Regions \<and> hasRegion s' ''x'' Masks"
    using groups_independent [where s = ?SM and n = "''x''" and R = 7 and ov = False
        and m = "''x''"] hm nm
    by blast
  have h2: "hasRegion ?S2 ''x'' Regions" "hasRegion ?S2 ''x'' Masks"
    by (simp_all add: hasRegion_iff)
  obtain s3 where r3: "removeRegion ?S2 ''x'' Regions True = Inr (True, s3)"
    and g3: "\<not> hasRegion s3 ''x'' Regions"
    by (simp add: removeRegion_def findRegionGroup_def hasRegion_iff itsMaps_eraseRegion)
  obtain s4 where r4: "removeRegion ?S2 ''x'' Masks True = Inr (True, s4)"
    and g4: "\<not> hasRegion s4 ''x'' Masks"
    by (simp add: removeRegion_def findRegionGroup_def hasRegion_iff itsMaps_eraseRegion)
  have d: "hasRegion s3 ''x'' Masks"
    using groups_independent [where s = ?S2 and n = "''x''" and t = True and b = True
        and s' = s3 and m = "''x''"] r3 h2
    by blast
  have f: "hasRegion s4 ''x'' Regions"
    using groups_independent [where s = ?S2 and n = "''x''" and t = True and b = True
        and s' = s4 and m = "''x''"] r4 h2
    by blast
  from e a h1 n1 b hm nm c r3 d g3 r4 f g4 show ?thesis by blast
qed

text \<open>
  C6. In a well-formed state, \<open>getRegion\<close> of a name that exists in the group(s) given
  hands out a newly allocated object with the content of the stored one: its address was
  free before and differs from the stored pointer, the handler's maps are unchanged, and
  removing the region from the handler afterwards, or deleting the copy, leaves the other
  object as it is. When the name does not exist, \<open>getRegion\<close> returns the zero pointer and
  changes nothing if \<open>throwIfUnknown\<close> is false, and signals Not-Found if it is true.
\<close>

theorem getRegion_clone:
  "(wellFormed s \<and> hasRegion s n gt \<longrightarrow>
      (\<exists>p q r s'. findRegion s n gt t = Inr (Some p) \<and> objects s p = Some r
         \<and> getRegion s n gt t = Inr (Some q, s')
         \<and> q \<noteq> p \<and> objects s q = None
         \<and> itsMaps s' = itsMaps s \<and> itsDefaultName s' = itsDefaultName s
         \<and> objects s' q = Some r \<and> objects s' p = Some r
         \<and> wellFormed s'
         \<and> objects (stateAfter s' (removeRegion s' n gt t)) q = Some r
         \<and> objects (deleteRegion q s') p = Some r
         \<and> itsMaps (deleteRegion q s') = itsMaps s))
   \<and> (\<not> hasRegion s n gt \<longrightarrow> getRegion s n gt False = Inr (None, s))
   \<and> (\<not> hasRegion s n gt \<longrightarrow> getRegion s n gt True = Inl (NotFoundError n))"
proof (intro conjI impI)
  assume "\<not> hasRegion s n gt"
  then show "getRegion s n gt False = Inr (None, s)"
    by (simp add: getRegion_def findRegion_def findRegionGroup_absent)
next
  assume "\<not> hasRegion s n gt"
  then show "getRegion s n gt True = Inl (NotFoundError n)"
    by (simp add: getRegion_def findRegion_def findRegionGroup_absent)
next
  assume a: "wellFormed s \<and> hasRegion s n gt"
  then have wf: "wellFormed s" and h: "hasRegion s n gt" by simp_all
  obtain g where g: "findRegionGroup s n gt t = Inr g" and g01: "g = 0 \<or> g = 1"
    and some: "itsMaps s g n \<noteq> None"
    using findRegionGroup_present [OF h, of t] by blast
  obtain p where p: "itsMaps s g n = Some p" using some by blast
  obtain r where r: "objects s p = Some r" using wellFormed_live [OF wf g01 p] by blast
  let ?q = "nextFree s"
  define s' where "s' = s\<lparr>objects := (objects s)(?q \<mapsto> r), nextFree := Suc ?q\<rparr>"
  have f: "findRegion s n gt t = Inr (Some p)"
    using g p g01 by (auto simp: findRegion_def)
  have get: "getRegion s n gt t = Inr (Some ?q, s')"
    using f r by (simp add: getRegion_def newRegion_def s'_def)
  have plt: "p < ?q" using wellFormed_below [OF wf, of p] r by simp
  then have qp: "?q \<noteq> p" by simp
  have fresh: "objects s ?q = None"
  proof (rule ccontr)
    assume "objects s ?q \<noteq> None"
    then have "?q < nextFree s" by (rule wellFormed_below [OF wf])
    then show False by simp
  qed
  have maps: "itsMaps s' = itsMaps s" and dn: "itsDefaultName s' = itsDefaultName s"
    by (simp_all add: s'_def)
  have oq: "objects s' ?q = Some r" and op: "objects s' p = Some r"
    using r qp by (simp_all add: s'_def)
  have wf': "wellFormed s'" using wellFormed_getRegion [OF wf get] .
  have "findRegionGroup s' n gt t = findRegionGroup s n gt t"
    by (simp add: findRegionGroup_def maps)
  then have g': "findRegionGroup s' n gt t = Inr g"
    using g by simp
  have rem: "objects (stateAfter s' (removeRegion s' n gt t)) ?q = Some r"
    using g' g01 p qp oq
    by (auto simp: removeRegion_def stateAfter_def eraseRegion_def deleteRegion_def maps)
  have del: "objects (deleteRegion ?q s') p = Some r" "itsMaps (deleteRegion ?q s') = itsMaps s"
    using op qp by (simp_all add: deleteRegion_def maps)
  from f r get qp fresh maps dn oq op wf' rem del
  show "\<exists>p q r s'. findRegion s n gt t = Inr (Some p) \<and> objects s p = Some r
         \<and> getRegion s n gt t = Inr (Some q, s')
         \<and> q \<noteq> p \<and> objects s q = None
         \<and> itsMaps s' = itsMaps s \<and> itsDefaultName s' = itsDefaultName s
         \<and> objects s' q = Some r \<and> objects s' p = Some r
         \<and> wellFormed s'
         \<and> objects (stateAfter s' (removeRegion s' n gt t)) q = Some r
         \<and> objects (deleteRegion q s') p = Some r
         \<and> itsMaps (deleteRegion q s') = itsMaps s"
    by blast
qed

theorem getRegion_clone_witness:
  "wellFormed \<lparr>itsDefaultName = [], itsMaps = (\<lambda>g. Map.empty)(0 := [''x'' \<mapsto> 0]),
       objects = [0 \<mapsto> (7::nat)], nextFree = 1\<rparr>
   \<and> hasRegion \<lparr>itsDefaultName = [], itsMaps = (\<lambda>g. Map.empty)(0 := [''x'' \<mapsto> 0]),
       objects = [0 \<mapsto> (7::nat)], nextFree = 1\<rparr> ''x'' Regions
   \<and> (\<exists>s'. getRegion \<lparr>itsDefaultName = [], itsMaps = (\<lambda>g. Map.empty)(0 := [''x'' \<mapsto> 0]),
       objects = [0 \<mapsto> (7::nat)], nextFree = 1\<rparr> ''x'' Regions True = Inr (Some 1, s')
        \<and> objects s' 1 = Some 7 \<and> objects s' 0 = Some 7)
   \<and> \<not> hasRegion \<lparr>itsDefaultName = [], itsMaps = (\<lambda>g. Map.empty)(0 := [''x'' \<mapsto> 0]),
       objects = [0 \<mapsto> (7::nat)], nextFree = 1\<rparr> ''x'' Masks
   \<and> getRegion \<lparr>itsDefaultName = [], itsMaps = (\<lambda>g. Map.empty)(0 := [''x'' \<mapsto> 0]),
       objects = [0 \<mapsto> (7::nat)], nextFree = 1\<rparr> ''x'' Masks False
       = Inr (None, \<lparr>itsDefaultName = [], itsMaps = (\<lambda>g. Map.empty)(0 := [''x'' \<mapsto> 0]),
       objects = [0 \<mapsto> (7::nat)], nextFree = 1\<rparr>)
   \<and> getRegion \<lparr>itsDefaultName = [], itsMaps = (\<lambda>g. Map.empty)(0 := [''x'' \<mapsto> 0]),
       objects = [0 \<mapsto> (7::nat)], nextFree = 1\<rparr> ''x'' Masks True
       = Inl (NotFoundError ''x'')"
proof -
  let ?S = "\<lparr>itsDefaultName = [], itsMaps = (\<lambda>g. Map.empty)(0 := [''x'' \<mapsto> 0]),
       objects = [0 \<mapsto> (7::nat)], nextFree = 1\<rparr>"
  have wf: "wellFormed ?S" by (rule wellFormed_example)
  have hx: "hasRegion ?S ''x'' Regions" by (simp add: hasRegion_iff)
  have nm: "\<not> hasRegion ?S ''x'' Masks" by (simp add: hasRegion_iff)
  have f: "findRegion ?S ''x'' Regions True = Inr (Some 0)"
    by (simp add: findRegion_def findRegionGroup_def)
  have o: "objects ?S 0 = Some 7" by simp
  obtain p q r s' where c: "findRegion ?S ''x'' Regions True = Inr (Some p)" "objects ?S p = Some r"
      "getRegion ?S ''x'' Regions True = Inr (Some q, s')" "q \<noteq> p" "objects ?S q = None"
      "objects s' q = Some r" "objects s' p = Some r"
    using getRegion_clone [where s = ?S and n = "''x''" and gt = Regions and t = True] wf hx
    by blast
  have p0: "p = 0" using c(1) f by simp
  then have r7: "r = 7" using c(2) o by simp
  have "q = nextFree ?S"
    using c(3) by (auto simp: getRegion_def newRegion_def split: sum.splits option.splits)
  then have q1: "q = 1" by simp
  have a: "\<exists>s'. getRegion ?S ''x'' Regions True = Inr (Some 1, s')
        \<and> objects s' 1 = Some 7 \<and> objects s' 0 = Some 7"
    using c(3,6,7) p0 r7 q1 by blast
  have b: "getRegion ?S ''x'' Masks False = Inr (None, ?S)"
    "getRegion ?S ''x'' Masks True = Inl (NotFoundError ''x'')"
    using getRegion_clone [where s = ?S and n = "''x''" and gt = Masks] nm by blast+
  from wf hx a nm b show ?thesis by blast
qed

end
